theory Spec2Isabelle
  imports Complex_Main "HOL-Library.Sublist"
begin

section \<open>JavaScript numbers\<close>

text \<open>
  Every amount and weight of the ledger engine is a JavaScript Number. The model keeps
  the two kinds of values the code can meet: a finite number, taken with its exact value
  as a rational (\<open>Num\<close>), and \<open>NaN\<close>, which JavaScript produces when a number is
  added to \<open>undefined\<close>. Sums of finite numbers are exact in the model: the binary
  rounding of IEEE doubles and the infinities are not represented.
  An absent property (\<open>undefined\<close>) is \<open>None\<close> of an option type.
\<close>

datatype jsnum = Num rat | NaN

fun jadd :: "jsnum \<Rightarrow> jsnum \<Rightarrow> jsnum" where
  "jadd (Num a) (Num b) = Num (a + b)"
| "jadd _ _ = NaN"

fun jneg :: "jsnum \<Rightarrow> jsnum" where
  "jneg (Num a) = Num (- a)"
| "jneg NaN = NaN"

text \<open>\<open>Math.abs\<close>.\<close>

fun jabs :: "jsnum \<Rightarrow> jsnum" where
  "jabs (Num a) = Num (abs a)"
| "jabs NaN = NaN"

text \<open>The comparisons \<open>x > 0\<close>, \<open>x < 0\<close>, \<open>x <= 0\<close> and \<open>x !== 0\<close>: every ordering
  comparison with \<open>NaN\<close> is false, and \<open>NaN !== 0\<close> is true.\<close>

fun gt0 :: "jsnum \<Rightarrow> bool" where
  "gt0 (Num a) = (0 < a)"
| "gt0 NaN = False"

fun lt0 :: "jsnum \<Rightarrow> bool" where
  "lt0 (Num a) = (a < 0)"
| "lt0 NaN = False"

fun le0 :: "jsnum \<Rightarrow> bool" where
  "le0 (Num a) = (a \<le> 0)"
| "le0 NaN = False"

fun ne0 :: "jsnum \<Rightarrow> bool" where
  "ne0 (Num a) = (a \<noteq> 0)"
| "ne0 NaN = True"

text \<open>Truthiness of a number: \<open>0\<close> and \<open>NaN\<close> are falsy.\<close>

fun truthy :: "jsnum \<Rightarrow> bool" where
  "truthy (Num a) = (a \<noteq> 0)"
| "truthy NaN = False"

text \<open>\<open>a || b\<close> where \<open>a\<close> is a number or \<open>undefined\<close> and \<open>b\<close> is a number.\<close>

fun orElse :: "jsnum option \<Rightarrow> jsnum \<Rightarrow> jsnum" where
  "orElse None b = b"
| "orElse (Some a) b = (if truthy a then a else b)"

text \<open>\<open>a + b\<close> where \<open>b\<close> may be \<open>undefined\<close>: a number plus \<open>undefined\<close> is \<open>NaN\<close>.\<close>

fun jaddU :: "jsnum \<Rightarrow> jsnum option \<Rightarrow> jsnum" where
  "jaddU a None = NaN"
| "jaddU a (Some b) = jadd a b"

text \<open>
  \<open>parseFloat(x.toFixed(2))\<close>. \<open>toFixed(2)\<close> prints the integer \<open>n\<close> for which
  \<open>n / 100\<close> is nearest to the exact value of \<open>x\<close>, the larger \<open>n\<close> on a tie, after
  taking the sign off a negative \<open>x\<close>; \<open>parseFloat\<close> reads the decimal back.
  \<open>NaN.toFixed(2)\<close> is the string \<open>NaN\<close>, which \<open>parseFloat\<close> reads as \<open>NaN\<close>.
\<close>

definition toFixed2 :: "rat \<Rightarrow> rat" where
  "toFixed2 x =
     (if x < 0 then - (of_int \<lfloor>(- x) * 100 + 1 / 2\<rfloor> / 100)
      else of_int \<lfloor>x * 100 + 1 / 2\<rfloor> / 100)"

fun parseFloat_toFixed2 :: "jsnum \<Rightarrow> jsnum" where
  "parseFloat_toFixed2 (Num a) = Num (toFixed2 a)"
| "parseFloat_toFixed2 NaN = NaN"

text \<open>\<open>parseFloat(x) || 0\<close> on a number: \<open>NaN\<close> becomes \<open>0\<close>.\<close>

fun parseFloatOr0 :: "jsnum \<Rightarrow> jsnum" where
  "parseFloatOr0 (Num a) = Num a"
| "parseFloatOr0 NaN = Num 0"

section \<open>Mode resolution\<close>

datatype txmode = Fix | Unfix

text \<open>
  \<open>getTransactionMode(fixed, unfix)\<close> of MetalTransactionService.js; the two flags are
  Boolean fields of the transaction schema. \<open>Fix\<close> and \<open>Unfix\<close> stand for the strings
  \<open>"fix"\<close> and \<open>"unfix"\<close>, the only two values the function returns.
\<close>

definition getTransactionMode :: "bool \<Rightarrow> bool \<Rightarrow> txmode" where
  "getTransactionMode fixed unfix =
     (if fixed \<and> \<not> unfix then Fix
      else if unfix \<and> \<not> fixed then Unfix
      else if \<not> fixed \<and> \<not> unfix then Unfix
      else Fix)"

section \<open>Totals Calculator\<close>

text \<open>
  The properties of a stock item that the engine reads. A nested object of the item
  (\<open>itemTotal\<close>, \<open>makingCharges\<close>, \<open>premium\<close>, \<open>vat\<close>, \<open>otherCharges\<close>,
  \<open>metalRateRequirements\<close>) may be absent, and so may each number in it.
\<close>

record itemTotal =
  baseAmount :: "jsnum option"
  makingChargesTotal :: "jsnum option"
  premiumTotal :: "jsnum option"

record amountRate =
  amount :: "jsnum option"
  rate :: "jsnum option"

record otherChargesObj = amountRate +
  description :: "string option"

record stockItem =
  item_itemTotal :: "itemTotal option"
  item_makingCharges :: "amountRate option"
  item_premium :: "amountRate option"
  item_vat :: "amountRate option"
  item_otherCharges :: "otherChargesObj option"
  item_metalRateRequirements :: "amountRate option"
  item_pureWeight :: "jsnum option"
  item_purity :: "jsnum option"
  item_grossWeight :: "jsnum option"

record sessionTotals =
  totalAmountAED :: "jsnum option"

text \<open>
  The accumulator of the reduction in \<open>calculateTotals\<close> (ten sums), and the totals
  record the function returns: the accumulator with \<open>totalAmount\<close> added to it.
\<close>

record itemSums =
  makingCharges :: jsnum
  premium :: jsnum
  discount :: jsnum
  goldValue :: jsnum
  pureWeight :: jsnum
  grossWeight :: jsnum
  purity :: jsnum
  vatAmount :: jsnum
  otherChargesAmount :: jsnum
  goldBidValue :: jsnum

record totals = itemSums +
  totalAmount :: jsnum

definition zeroSums :: itemSums where
  "zeroSums =
     \<lparr>makingCharges = Num 0, premium = Num 0, discount = Num 0, goldValue = Num 0,
      pureWeight = Num 0, grossWeight = Num 0, purity = Num 0, vatAmount = Num 0,
      otherChargesAmount = Num 0, goldBidValue = Num 0\<rparr>"

text \<open>
  The callback of \<open>stockItems.reduce\<close>. \<open>o?.f\<close> on an object that may be absent is
  \<open>Option.bind o f\<close>. The VAT and other-charges amounts are read without a fallback,
  so they are \<open>undefined\<close> when absent.
\<close>

definition addItem :: "itemSums \<Rightarrow> stockItem \<Rightarrow> itemSums" where
  "addItem acc item =
     (let makingChargesAmount =
            orElse (Option.bind (item_itemTotal item) makingChargesTotal)
              (orElse (Option.bind (item_makingCharges item) amount) (Num 0));
          premiumDiscountAmount =
            orElse (Option.bind (item_itemTotal item) premiumTotal)
              (orElse (Option.bind (item_premium item) amount) (Num 0));
          vatAmount' = Option.bind (item_vat item) amount;
          otherChargesAmount' = Option.bind (item_otherCharges item) amount;
          goldValue' = orElse (Option.bind (item_itemTotal item) baseAmount) (Num 0);
          pureWeight' = orElse (item_pureWeight item) (Num 0);
          purity' = orElse (item_purity item) (Num 0);
          grossWeight' = orElse (item_grossWeight item) (Num 0);
          premium' = (if gt0 premiumDiscountAmount then premiumDiscountAmount else Num 0);
          discount' = (if lt0 premiumDiscountAmount then jabs premiumDiscountAmount else Num 0)
      in \<lparr>makingCharges = jadd (makingCharges acc) makingChargesAmount,
          premium = jadd (premium acc) premium',
          discount = jadd (discount acc) discount',
          goldValue = jadd (goldValue acc) goldValue',
          pureWeight = jadd (pureWeight acc) pureWeight',
          grossWeight = jadd (grossWeight acc) grossWeight',
          purity = jadd (purity acc) purity',
          vatAmount = jaddU (vatAmount acc) vatAmount',
          otherChargesAmount = jaddU (otherChargesAmount acc) otherChargesAmount',
          goldBidValue =
            (if truthy (goldBidValue acc) then goldBidValue acc
             else orElse (Option.bind (item_metalRateRequirements item) rate) (Num 0))\<rparr>)"

definition calculateTotals :: "stockItem list \<Rightarrow> sessionTotals option \<Rightarrow> totals" where
  "calculateTotals stockItems session =
     (let acc = foldl addItem zeroSums stockItems
      in \<lparr>makingCharges = makingCharges acc, premium = premium acc, discount = discount acc,
          goldValue = goldValue acc, pureWeight = pureWeight acc,
          grossWeight = grossWeight acc, purity = purity acc, vatAmount = vatAmount acc,
          otherChargesAmount = otherChargesAmount acc, goldBidValue = goldBidValue acc,
          totalAmount = orElse (Option.bind session totalAmountAED) (Num 0)\<rparr>)"

section \<open>Balance Mutator\<close>

text \<open>The record of deltas that \<open>calculateBalanceChanges\<close> returns. Its \<open>goldValue\<close>
  property is named \<open>goldValueChange\<close> here, apart from the field of \<open>totals\<close>.\<close>

record balanceChanges =
  goldBalance :: jsnum
  goldValueChange :: jsnum
  cashBalance :: jsnum
  premiumBalance :: jsnum
  discountBalance :: jsnum
  otherCharges :: jsnum

definition zeroChanges :: balanceChanges where
  "zeroChanges =
     \<lparr>goldBalance = Num 0, goldValueChange = Num 0, cashBalance = Num 0,
      premiumBalance = Num 0, discountBalance = Num 0, otherCharges = Num 0\<rparr>"

text \<open>
  \<open>calculateBalanceChanges(transactionType, mode, totals)\<close>: the lookup
  \<open>balanceMatrix[transactionType]?.[mode]\<close>, with the all-zero record for a transaction
  type that is not a key of the matrix.
\<close>

definition calculateBalanceChanges :: "string \<Rightarrow> txmode \<Rightarrow> totals \<Rightarrow> balanceChanges" where
  "calculateBalanceChanges transactionType mode t =
     (if transactionType = ''purchase'' then
        (case mode of
           Unfix \<Rightarrow>
             \<lparr>goldBalance = pureWeight t, goldValueChange = goldValue t,
              cashBalance = makingCharges t, premiumBalance = premium t,
              discountBalance = jneg (discount t), otherCharges = otherChargesAmount t\<rparr>
         | Fix \<Rightarrow>
             \<lparr>goldBalance = Num 0, goldValueChange = Num 0, cashBalance = totalAmount t,
              premiumBalance = Num 0, discountBalance = Num 0, otherCharges = Num 0\<rparr>)
      else if transactionType = ''sale'' then
        (case mode of
           Unfix \<Rightarrow>
             \<lparr>goldBalance = jneg (pureWeight t), goldValueChange = jneg (goldValue t),
              cashBalance = jneg (makingCharges t), premiumBalance = jneg (premium t),
              discountBalance = discount t, otherCharges = jneg (otherChargesAmount t)\<rparr>
         | Fix \<Rightarrow>
             \<lparr>goldBalance = Num 0, goldValueChange = Num 0,
              cashBalance = jneg (totalAmount t),
              premiumBalance = Num 0, discountBalance = Num 0, otherCharges = Num 0\<rparr>)
      else if transactionType = ''purchaseReturn'' then
        (case mode of
           Unfix \<Rightarrow>
             \<lparr>goldBalance = jneg (pureWeight t), goldValueChange = jneg (goldValue t),
              cashBalance = jneg (makingCharges t), premiumBalance = jneg (premium t),
              discountBalance = discount t, otherCharges = jneg (otherChargesAmount t)\<rparr>
         | Fix \<Rightarrow>
             \<lparr>goldBalance = Num 0, goldValueChange = Num 0,
              cashBalance = jneg (totalAmount t),
              premiumBalance = Num 0, discountBalance = Num 0, otherCharges = Num 0\<rparr>)
      else if transactionType = ''saleReturn'' then
        (case mode of
           Unfix \<Rightarrow>
             \<lparr>goldBalance = pureWeight t, goldValueChange = goldValue t,
              cashBalance = makingCharges t, premiumBalance = premium t,
              discountBalance = jneg (discount t), otherCharges = otherChargesAmount t\<rparr>
         | Fix \<Rightarrow>
             \<lparr>goldBalance = Num 0, goldValueChange = Num 0, cashBalance = totalAmount t,
              premiumBalance = Num 0, discountBalance = Num 0, otherCharges = Num 0\<rparr>)
      else zeroChanges)"

text \<open>
  The update document of \<open>buildUpdateOperations\<close>: the three \<open>$inc\<close> paths, absent when
  the code does not write them, and which \<open>lastUpdated\<close> stamps are set (the time itself
  is the wall clock and is left out).
\<close>

record updateOps =
  inc_totalGrams :: "jsnum option"
  inc_totalValue :: "jsnum option"
  inc_cashAmount :: "jsnum option"
  set_goldLastUpdated :: bool
  set_cashLastUpdated :: bool
  set_lastBalanceUpdate :: bool

definition netCashChange :: "balanceChanges \<Rightarrow> jsnum" where
  "netCashChange c = jadd (jadd (cashBalance c) (premiumBalance c)) (discountBalance c)"

definition buildUpdateOperations :: "balanceChanges \<Rightarrow> updateOps" where
  "buildUpdateOperations c =
     \<lparr>inc_totalGrams = (if ne0 (goldBalance c) then Some (goldBalance c) else None),
      inc_totalValue = (if ne0 (goldBalance c) then Some (goldValueChange c) else None),
      inc_cashAmount =
        (if ne0 (netCashChange c) then Some (parseFloat_toFixed2 (netCashChange c)) else None),
      set_goldLastUpdated = ne0 (goldBalance c),
      set_cashLastUpdated = ne0 (netCashChange c),
      set_lastBalanceUpdate = True\<rparr>"

text \<open>What a \<open>$inc\<close> path adds to the stored field: nothing when the path is absent.\<close>

fun incAmount :: "jsnum option \<Rightarrow> jsnum" where
  "incAmount None = Num 0"
| "incAmount (Some d) = d"


section \<open>Posting Builder\<close>

type_synonym objectId = nat

text \<open>The exceptions of the model: the two JavaScript errors the engine can raise by
  itself, the CastError of Mongoose for an id that is not an ObjectId, and the
  application errors of \<open>createAppError\<close> with their code.\<close>

datatype jsError = ReferenceError | TypeError | CastError | AppError string

text \<open>
  An Account document: the party of a transaction. Of its balances the engine writes
  \<open>balances.goldBalance.totalGrams\<close>, \<open>balances.goldBalance.totalValue\<close> and
  \<open>balances.cashBalance.amount\<close>; the \<open>lastUpdated\<close> stamps are the wall clock and are
  left out.
\<close>

record account =
  account_id :: objectId
  accountCode :: string
  customerName :: string
  account_isActive :: bool
  totalGrams :: jsnum
  totalValue :: jsnum
  cashAmount :: jsnum

text \<open>\<open>party.customerName || party.accountCode\<close>: the empty string is falsy.\<close>

definition partyNameOf :: "account \<Rightarrow> string" where
  "partyNameOf party = (if customerName party \<noteq> [] then customerName party else accountCode party)"

text \<open>
  A Registry posting as \<open>createRegistryEntry\<close> builds it. The two dates of the posting
  (\<open>transactionDate\<close> and \<open>createdAt\<close>, both \<open>new Date()\<close>) are left out, and with them
  the \<open>voucherDate\<close> argument, which the code never reaches.
\<close>

record registryEntry =
  e_transactionId :: string
  e_metalTransactionId :: objectId
  e_type :: string
  e_description :: string
  e_party :: "objectId option"
  e_isBullion :: bool
  e_value :: jsnum
  e_credit :: jsnum
  e_cashDebit :: jsnum
  e_goldCredit :: jsnum
  e_cashCredit :: jsnum
  e_goldDebit :: jsnum
  e_debit :: jsnum
  e_goldBidValue :: "jsnum option"
  e_reference :: string
  e_createdBy :: objectId
  e_grossWeight :: "jsnum option"
  e_pureWeight :: "jsnum option"
  e_purity :: "jsnum option"

text \<open>The destructured options object of \<open>createRegistryEntry\<close>; a property that the
  caller does not pass is \<open>None\<close>.\<close>

record extras =
  x_cashDebit :: "jsnum option"
  x_goldCredit :: "jsnum option"
  x_cashCredit :: "jsnum option"
  x_goldDebit :: "jsnum option"
  x_debit :: "jsnum option"
  x_grossWeight :: "jsnum option"
  x_pureWeight :: "jsnum option"
  x_purity :: "jsnum option"
  x_goldBidValue :: "jsnum option"

definition noExtras :: extras where
  "noExtras =
     \<lparr>x_cashDebit = None, x_goldCredit = None, x_cashCredit = None, x_goldDebit = None,
      x_debit = None, x_grossWeight = None, x_pureWeight = None, x_purity = None,
      x_goldBidValue = None\<rparr>"

text \<open>The default \<open>= 0\<close> of a destructured property.\<close>

fun default0 :: "jsnum option \<Rightarrow> jsnum" where
  "default0 None = Num 0"
| "default0 (Some v) = v"

text \<open>\<open>createRegistryEntry\<close>; \<open>null\<close> is \<open>None\<close>.\<close>

definition createRegistryEntry ::
  "string \<Rightarrow> objectId \<Rightarrow> string \<Rightarrow> string \<Rightarrow> string \<Rightarrow> objectId option \<Rightarrow> bool \<Rightarrow>
   jsnum \<Rightarrow> jsnum \<Rightarrow> extras \<Rightarrow> string \<Rightarrow> objectId \<Rightarrow> registryEntry option" where
  "createRegistryEntry baseId metalTransactionId sfx entryType descr partyId isBullion
     val credit x reference adminId =
     (if le0 val \<and> entryType \<notin> set [''sales-fixing'', ''sale-return-fixing''] then None
      else Some
        \<lparr>e_transactionId = baseId @ ''-'' @ sfx,
         e_metalTransactionId = metalTransactionId,
         e_type = entryType,
         e_description = descr,
         e_party = partyId,
         e_isBullion = isBullion,
         e_value = parseFloatOr0 val,
         e_credit = parseFloatOr0 credit,
         e_cashDebit = parseFloatOr0 (default0 (x_cashDebit x)),
         e_goldCredit = parseFloatOr0 (default0 (x_goldCredit x)),
         e_cashCredit = parseFloatOr0 (default0 (x_cashCredit x)),
         e_goldDebit = parseFloatOr0 (default0 (x_goldDebit x)),
         e_debit = parseFloatOr0 (default0 (x_debit x)),
         e_goldBidValue = x_goldBidValue x,
         e_reference = reference,
         e_createdBy = adminId,
         e_grossWeight = x_grossWeight x,
         e_pureWeight = x_pureWeight x,
         e_purity = x_purity x\<rparr>)"

text \<open>
  The statements of a builder run in order, each pushing its postings, and the first
  exception ends the function: \<open>runLegs\<close> gives the postings of all statements, or the
  first error.
\<close>

fun runLegs :: "(jsError + 'a list) list \<Rightarrow> jsError + 'a list" where
  "runLegs [] = Inr []"
| "runLegs (l # ls) =
     (case l of
        Inl err \<Rightarrow> Inl err
      | Inr xs \<Rightarrow> (case runLegs ls of Inl err \<Rightarrow> Inl err | Inr ys \<Rightarrow> Inr (xs @ ys)))"

text \<open>\<open>if (c) { entries.push(x); }\<close>\<close>

definition pushIf :: "bool \<Rightarrow> 'a \<Rightarrow> jsError + 'a list" where
  "pushIf c x = Inr (if c then [x] else [])"

text \<open>
  The same statement when the description of the posting starts with
  \<open>${item.otherCharges.description}\<close>: reading the property of an absent
  \<open>item.otherCharges\<close> is a TypeError, and a \<open>null\<close> description prints as \<open>null\<close>.
\<close>

definition pushIfDescribed :: "bool \<Rightarrow> stockItem \<Rightarrow> (string \<Rightarrow> 'a) \<Rightarrow> jsError + 'a list" where
  "pushIfDescribed c item mk =
     (if c then
        (case item_otherCharges item of
           None \<Rightarrow> Inl TypeError
         | Some oc \<Rightarrow> Inr [mk (case description oc of None \<Rightarrow> ''null'' | Some d \<Rightarrow> d)])
      else Inr [])"

text \<open>A guarded statement whose argument list names a variable that is not declared
  (the premium leg of \<open>buildPurchaseReturnUnfixEntries\<close> passes
  \<open>{ debit: totals.premium, goldBidValue }\<close>): it throws when the guard holds.\<close>

definition throwIf :: "bool \<Rightarrow> jsError \<Rightarrow> jsError + 'a list" where
  "throwIf c err = (if c then Inl err else Inr [])"

type_synonym builder =
  "totals \<Rightarrow> objectId \<Rightarrow> account \<Rightarrow> string \<Rightarrow> string \<Rightarrow> objectId \<Rightarrow> stockItem \<Rightarrow>
   jsError + registryEntry option list"

text \<open>The eight builders, one per transaction kind and mode, in the order of the source.\<close>

definition buildPurchaseFixEntries :: builder where
  "buildPurchaseFixEntries totals metalTransactionId party baseTransactionId voucherNumber adminId item =
     (let partyName = partyNameOf party in
      runLegs
       [pushIf (gt0 (pureWeight totals))
          (createRegistryEntry baseTransactionId metalTransactionId ''PARTY-GOLD'' ''purchase-fixing''
             (''Party gold balance - Purchase from '' @ partyName)
             (Some (account_id party)) True (pureWeight totals) (pureWeight totals)
             (noExtras\<lparr>x_debit := Some (Num 0),
                x_goldCredit := Some (pureWeight totals),
                x_cashDebit := Some (goldValue totals),
                x_grossWeight := Some (grossWeight totals),
                x_goldBidValue := Some (goldBidValue totals)\<rparr>)
             voucherNumber adminId),
        pushIf (gt0 (goldValue totals))
          (createRegistryEntry baseTransactionId metalTransactionId ''001'' ''PARTY_CASH_BALANCE''
             (''Party cash balance - Purchase from '' @ partyName)
             (Some (account_id party)) False (goldValue totals) (goldValue totals)
             (noExtras\<lparr>x_goldDebit := Some (grossWeight totals),
                x_cashDebit := Some (goldValue totals),
                x_grossWeight := Some (grossWeight totals),
                x_goldBidValue := Some (goldBidValue totals)\<rparr>)
             voucherNumber adminId),
        pushIf (gt0 (makingCharges totals))
          (createRegistryEntry baseTransactionId metalTransactionId ''002'' ''MAKING_CHARGES''
             (''Party making charges - Purchase from '' @ partyName)
             (Some (account_id party)) False (makingCharges totals) (makingCharges totals)
             (noExtras\<lparr>x_goldDebit := Some (grossWeight totals),
                x_cashDebit := Some (goldValue totals),
                x_grossWeight := Some (grossWeight totals),
                x_goldBidValue := Some (goldBidValue totals)\<rparr>)
             voucherNumber adminId),
        pushIfDescribed (gt0 (otherChargesAmount totals)) item (\<lambda>d.
          (createRegistryEntry baseTransactionId metalTransactionId ''008'' ''OTHER_CHARGES''
             (d @ '' charges - Purchase from '' @ partyName)
             (Some (account_id party)) False (otherChargesAmount totals) (otherChargesAmount totals)
             (noExtras\<lparr>x_goldDebit := Some (grossWeight totals),
                x_cashDebit := Some (goldValue totals),
                x_grossWeight := Some (grossWeight totals),
                x_goldBidValue := Some (goldBidValue totals)\<rparr>)
             voucherNumber adminId)),
        pushIf (gt0 (vatAmount totals))
          (createRegistryEntry baseTransactionId metalTransactionId ''009'' ''VAT_AMOUNT''
             (''Party Vat amount - Purchase from '' @ partyName)
             (Some (account_id party)) False (vatAmount totals) (vatAmount totals)
             (noExtras\<lparr>x_goldDebit := Some (grossWeight totals),
                x_cashDebit := Some (goldValue totals),
                x_grossWeight := Some (grossWeight totals),
                x_goldBidValue := Some (goldBidValue totals)\<rparr>)
             voucherNumber adminId),
        pushIf (gt0 (premium totals))
          (createRegistryEntry baseTransactionId metalTransactionId ''003'' ''PREMIUM''
             (''Party premium - Purchase from '' @ partyName)
             (Some (account_id party)) False (premium totals) (premium totals)
             (noExtras\<lparr>x_goldDebit := Some (grossWeight totals),
                x_cashDebit := Some (goldValue totals),
                x_grossWeight := Some (grossWeight totals),
                x_goldBidValue := Some (goldBidValue totals)\<rparr>)
             voucherNumber adminId),
        pushIf (gt0 (discount totals))
          (createRegistryEntry baseTransactionId metalTransactionId ''007'' ''DISCOUNT''
             (''Party discount - Purchase from '' @ partyName)
             (Some (account_id party)) False (discount totals) (Num 0)
             (noExtras\<lparr>x_debit := Some (discount totals),
                x_goldDebit := Some (grossWeight totals),
                x_cashDebit := Some (goldValue totals),
                x_grossWeight := Some (grossWeight totals),
                x_goldBidValue := Some (goldBidValue totals)\<rparr>)
             voucherNumber adminId),
        pushIf (gt0 (pureWeight totals))
          (createRegistryEntry baseTransactionId metalTransactionId ''004'' ''GOLD''
             (''Gold inventory - Purchase from '' @ partyName)
             (None) True (pureWeight totals) (Num 0)
             (noExtras\<lparr>x_debit := Some (pureWeight totals),
                x_goldDebit := Some (grossWeight totals),
                x_cashDebit := Some (goldValue totals),
                x_grossWeight := Some (grossWeight totals),
                x_pureWeight := Some (pureWeight totals),
                x_purity := Some (purity totals),
                x_goldBidValue := Some (goldBidValue totals)\<rparr>)
             voucherNumber adminId),
        pushIf (gt0 (grossWeight totals))
          (createRegistryEntry baseTransactionId metalTransactionId ''005'' ''GOLD_STOCK''
             (''Gold stock - Purchase from '' @ partyName)
             (None) True (grossWeight totals) (Num 0)
             (noExtras\<lparr>x_debit := Some (grossWeight totals),
                x_goldDebit := Some (grossWeight totals),
                x_cashDebit := Some (goldValue totals),
                x_grossWeight := Some (grossWeight totals),
                x_pureWeight := Some (pureWeight totals),
                x_purity := Some (purity totals),
                x_goldBidValue := Some (goldBidValue totals)\<rparr>)
             voucherNumber adminId)])"

definition buildPurchaseUnfixEntries :: builder where
  "buildPurchaseUnfixEntries totals metalTransactionId party baseTransactionId voucherNumber adminId item =
     (let partyName = partyNameOf party in
      runLegs
       [pushIf (gt0 (pureWeight totals))
          (createRegistryEntry baseTransactionId metalTransactionId ''001'' ''PARTY_GOLD_BALANCE''
             (''Party gold balance - Unfix purchase from '' @ partyName)
             (Some (account_id party)) False (pureWeight totals) (pureWeight totals)
             (noExtras\<lparr>x_debit := Some (Num 0),
                x_grossWeight := Some (grossWeight totals),
                x_goldBidValue := Some (goldBidValue totals)\<rparr>)
             voucherNumber adminId),
        pushIf (gt0 (makingCharges totals))
          (createRegistryEntry baseTransactionId metalTransactionId ''003'' ''MAKING_CHARGES''
             (''Party making charges - Unfix purchase from '' @ partyName)
             (Some (account_id party)) False (makingCharges totals) (makingCharges totals)
             (noExtras\<lparr>x_debit := Some (Num 0),
                x_grossWeight := Some (grossWeight totals),
                x_goldBidValue := Some (goldBidValue totals)\<rparr>)
             voucherNumber adminId),
        pushIfDescribed (gt0 (otherChargesAmount totals)) item (\<lambda>d.
          (createRegistryEntry baseTransactionId metalTransactionId ''008'' ''OTHER_CHARGES''
             (d @ '' charges - Purchase from '' @ partyName)
             (Some (account_id party)) False (otherChargesAmount totals) (otherChargesAmount totals)
             (noExtras\<lparr>x_goldDebit := Some (grossWeight totals),
                x_cashDebit := Some (goldValue totals),
                x_grossWeight := Some (grossWeight totals),
                x_goldBidValue := Some (goldBidValue totals)\<rparr>)
             voucherNumber adminId)),
        pushIf (gt0 (vatAmount totals))
          (createRegistryEntry baseTransactionId metalTransactionId ''009'' ''VAT_AMOUNT''
             (''Party Vat amount - Purchase from '' @ partyName)
             (Some (account_id party)) False (vatAmount totals) (vatAmount totals)
             (noExtras\<lparr>x_goldDebit := Some (grossWeight totals),
                x_cashDebit := Some (goldValue totals),
                x_grossWeight := Some (grossWeight totals),
                x_goldBidValue := Some (goldBidValue totals)\<rparr>)
             voucherNumber adminId),
        pushIf (gt0 (premium totals))
          (createRegistryEntry baseTransactionId metalTransactionId ''004'' ''PREMIUM''
             (''Party premium - Unfix purchase from '' @ partyName)
             (Some (account_id party)) False (premium totals) (premium totals)
             (noExtras\<lparr>x_debit := Some (Num 0),
                x_grossWeight := Some (grossWeight totals),
                x_goldBidValue := Some (goldBidValue totals)\<rparr>)
             voucherNumber adminId),
        pushIf (gt0 (discount totals))
          (createRegistryEntry baseTransactionId metalTransactionId ''007'' ''DISCOUNT''
             (''Party discount - Unfix purchase from '' @ partyName)
             (Some (account_id party)) False (discount totals) (Num 0)
             (noExtras\<lparr>x_debit := Some (discount totals),
                x_grossWeight := Some (grossWeight totals),
                x_goldBidValue := Some (goldBidValue totals)\<rparr>)
             voucherNumber adminId),
        pushIf (gt0 (pureWeight totals))
          (createRegistryEntry baseTransactionId metalTransactionId ''005'' ''GOLD''
             (''Gold inventory - Unfix purchase from '' @ partyName)
             (None) True (pureWeight totals) (Num 0)
             (noExtras\<lparr>x_debit := Some (pureWeight totals),
                x_grossWeight := Some (grossWeight totals),
                x_goldBidValue := Some (goldBidValue totals)\<rparr>)
             voucherNumber adminId),
        pushIf (gt0 (grossWeight totals))
          (createRegistryEntry baseTransactionId metalTransactionId ''006'' ''GOLD_STOCK''
             (''Gold stock - Unfix purchase from '' @ partyName)
             (None) True (grossWeight totals) (Num 0)
             (noExtras\<lparr>x_debit := Some (grossWeight totals),
                x_grossWeight := Some (grossWeight totals),
                x_pureWeight := Some (pureWeight totals),
                x_purity := Some (purity totals),
                x_goldBidValue := Some (goldBidValue totals)\<rparr>)
             voucherNumber adminId)])"

definition buildPurchaseReturnFixEntries :: builder where
  "buildPurchaseReturnFixEntries totals metalTransactionId party baseTransactionId voucherNumber adminId item =
     (let partyName = partyNameOf party in
      runLegs
       [pushIf (gt0 (pureWeight totals))
          (createRegistryEntry baseTransactionId metalTransactionId ''PARTY-GOLD'' ''purchase-fixing''
             (''Party gold balance - Purchase return from '' @ partyName)
             (Some (account_id party)) True (pureWeight totals) (Num 0)
             (noExtras\<lparr>x_debit := Some (pureWeight totals),
                x_goldDebit := Some (pureWeight totals),
                x_cashCredit := Some (goldValue totals),
                x_grossWeight := Some (grossWeight totals),
                x_pureWeight := Some (pureWeight totals),
                x_purity := Some (purity totals),
                x_goldBidValue := Some (goldBidValue totals)\<rparr>)
             voucherNumber adminId),
        pushIf (gt0 (totalAmount totals))
          (createRegistryEntry baseTransactionId metalTransactionId ''001'' ''PARTY_CASH_BALANCE''
             (''Party cash balance - Purchase return from '' @ partyName)
             (Some (account_id party)) False (totalAmount totals) (Num 0)
             (noExtras\<lparr>x_debit := Some (totalAmount totals),
                x_goldDebit := Some (grossWeight totals),
                x_cashCredit := Some (goldValue totals),
                x_grossWeight := Some (grossWeight totals),
                x_pureWeight := Some (pureWeight totals),
                x_purity := Some (purity totals),
                x_goldBidValue := Some (goldBidValue totals)\<rparr>)
             voucherNumber adminId),
        pushIf (gt0 (makingCharges totals))
          (createRegistryEntry baseTransactionId metalTransactionId ''002'' ''MAKING_CHARGES''
             (''Party making charges - Purchase return from '' @ partyName)
             (Some (account_id party)) False (makingCharges totals) (Num 0)
             (noExtras\<lparr>x_debit := Some (makingCharges totals),
                x_goldDebit := Some (grossWeight totals),
                x_cashCredit := Some (goldValue totals),
                x_grossWeight := Some (grossWeight totals),
                x_pureWeight := Some (pureWeight totals),
                x_purity := Some (purity totals),
                x_goldBidValue := Some (goldBidValue totals)\<rparr>)
             voucherNumber adminId),
        pushIfDescribed (gt0 (otherChargesAmount totals)) item (\<lambda>d.
          (createRegistryEntry baseTransactionId metalTransactionId ''008'' ''OTHER_CHARGES''
             (d @ '' charges - Purchase from '' @ partyName)
             (Some (account_id party)) False (otherChargesAmount totals) (otherChargesAmount totals)
             (noExtras\<lparr>x_goldDebit := Some (grossWeight totals),
                x_cashDebit := Some (goldValue totals),
                x_grossWeight := Some (grossWeight totals),
                x_goldBidValue := Some (goldBidValue totals)\<rparr>)
             voucherNumber adminId)),
        pushIf (gt0 (vatAmount totals))
          (createRegistryEntry baseTransactionId metalTransactionId ''009'' ''VAT_AMOUNT''
             (''Party Vat amount - Purchase from '' @ partyName)
             (Some (account_id party)) False (vatAmount totals) (Num 0)
             (noExtras\<lparr>x_debit := Some (vatAmount totals),
                x_goldDebit := Some (grossWeight totals),
                x_cashDebit := Some (goldValue totals),
                x_grossWeight := Some (grossWeight totals),
                x_goldBidValue := Some (goldBidValue totals)\<rparr>)
             voucherNumber adminId),
        pushIf (gt0 (premium totals))
          (createRegistryEntry baseTransactionId metalTransactionId ''003'' ''PREMIUM''
             (''Party premium - Purchase return from '' @ partyName)
             (Some (account_id party)) False (premium totals) (Num 0)
             (noExtras\<lparr>x_debit := Some (premium totals),
                x_goldDebit := Some (grossWeight totals),
                x_cashCredit := Some (goldValue totals),
                x_grossWeight := Some (grossWeight totals),
                x_pureWeight := Some (pureWeight totals),
                x_purity := Some (purity totals),
                x_goldBidValue := Some (goldBidValue totals)\<rparr>)
             voucherNumber adminId),
        pushIf (gt0 (discount totals))
          (createRegistryEntry baseTransactionId metalTransactionId ''007'' ''DISCOUNT''
             (''Party discount - Purchase return from '' @ partyName)
             (Some (account_id party)) False (discount totals) (discount totals)
             (noExtras\<lparr>x_goldDebit := Some (grossWeight totals),
                x_cashCredit := Some (goldValue totals),
                x_grossWeight := Some (grossWeight totals),
                x_pureWeight := Some (pureWeight totals),
                x_purity := Some (purity totals),
                x_goldBidValue := Some (goldBidValue totals)\<rparr>)
             voucherNumber adminId),
        pushIf (gt0 (pureWeight totals))
          (createRegistryEntry baseTransactionId metalTransactionId ''004'' ''GOLD''
             (''Gold inventory - Purchase return from '' @ partyName)
             (None) True (pureWeight totals) (pureWeight totals)
             (noExtras\<lparr>x_goldDebit := Some (grossWeight totals),
                x_cashCredit := Some (goldValue totals),
                x_grossWeight := Some (grossWeight totals),
                x_pureWeight := Some (pureWeight totals),
                x_purity := Some (purity totals),
                x_goldBidValue := Some (goldBidValue totals)\<rparr>)
             voucherNumber adminId),
        pushIf (gt0 (grossWeight totals))
          (createRegistryEntry baseTransactionId metalTransactionId ''005'' ''GOLD_STOCK''
             (''Gold stock - Purchase return from '' @ partyName)
             (None) True (grossWeight totals) (grossWeight totals)
             (noExtras\<lparr>x_goldDebit := Some (grossWeight totals),
                x_cashCredit := Some (goldValue totals),
                x_grossWeight := Some (grossWeight totals),
                x_pureWeight := Some (pureWeight totals),
                x_purity := Some (purity totals),
                x_goldBidValue := Some (goldBidValue totals)\<rparr>)
             voucherNumber adminId)])"

definition buildPurchaseReturnUnfixEntries :: builder where
  "buildPurchaseReturnUnfixEntries totals metalTransactionId party baseTransactionId voucherNumber adminId item =
     (let partyName = partyNameOf party in
      runLegs
       [pushIf (gt0 (pureWeight totals))
          (createRegistryEntry baseTransactionId metalTransactionId ''001'' ''PARTY_GOLD_BALANCE''
             (''Party gold balance - Unfix purchase return from '' @ partyName)
             (Some (account_id party)) False (pureWeight totals) (Num 0)
             (noExtras\<lparr>x_debit := Some (pureWeight totals),
                x_grossWeight := Some (grossWeight totals),
                x_pureWeight := Some (pureWeight totals),
                x_purity := Some (purity totals),
                x_goldBidValue := Some (goldBidValue totals)\<rparr>)
             voucherNumber adminId),
        pushIf (gt0 (makingCharges totals))
          (createRegistryEntry baseTransactionId metalTransactionId ''003'' ''MAKING_CHARGES''
             (''Party making charges - Unfix purchase return from '' @ partyName)
             (Some (account_id party)) False (makingCharges totals) (Num 0)
             (noExtras\<lparr>x_debit := Some (makingCharges totals),
                x_grossWeight := Some (grossWeight totals),
                x_pureWeight := Some (pureWeight totals),
                x_purity := Some (purity totals),
                x_goldBidValue := Some (goldBidValue totals)\<rparr>)
             voucherNumber adminId),
        pushIfDescribed (gt0 (otherChargesAmount totals)) item (\<lambda>d.
          (createRegistryEntry baseTransactionId metalTransactionId ''008'' ''OTHER_CHARGES''
             (d @ '' charges - Purchase from '' @ partyName)
             (Some (account_id party)) False (otherChargesAmount totals) (Num 0)
             (noExtras\<lparr>x_goldDebit := Some (grossWeight totals),
                x_cashDebit := Some (goldValue totals),
                x_grossWeight := Some (grossWeight totals),
                x_goldBidValue := Some (goldBidValue totals)\<rparr>)
             voucherNumber adminId)),
        pushIf (gt0 (vatAmount totals))
          (createRegistryEntry baseTransactionId metalTransactionId ''009'' ''VAT_AMOUNT''
             (''Party Vat amount - Purchase from '' @ partyName)
             (Some (account_id party)) False (vatAmount totals) (vatAmount totals)
             (noExtras\<lparr>x_goldDebit := Some (grossWeight totals),
                x_cashDebit := Some (goldValue totals),
                x_grossWeight := Some (grossWeight totals),
                x_goldBidValue := Some (goldBidValue totals)\<rparr>)
             voucherNumber adminId),
        throwIf (gt0 (premium totals)) ReferenceError,
        pushIf (gt0 (discount totals))
          (createRegistryEntry baseTransactionId metalTransactionId ''007'' ''DISCOUNT''
             (''Party discount - Unfix purchase return from '' @ partyName)
             (Some (account_id party)) False (discount totals) (discount totals)
             (noExtras)
             voucherNumber adminId),
        pushIf (gt0 (pureWeight totals))
          (createRegistryEntry baseTransactionId metalTransactionId ''005'' ''GOLD''
             (''Gold inventory - Unfix purchase return from '' @ partyName)
             (None) True (pureWeight totals) (pureWeight totals)
             (noExtras)
             voucherNumber adminId),
        pushIf (gt0 (grossWeight totals))
          (createRegistryEntry baseTransactionId metalTransactionId ''006'' ''GOLD_STOCK''
             (''Gold stock - Unfix purchase return from '' @ partyName)
             (None) True (grossWeight totals) (grossWeight totals)
             (noExtras\<lparr>x_grossWeight := Some (grossWeight totals),
                x_pureWeight := Some (pureWeight totals),
                x_purity := Some (purity totals),
                x_goldBidValue := Some (goldBidValue totals)\<rparr>)
             voucherNumber adminId)])"

definition buildSaleFixEntries :: builder where
  "buildSaleFixEntries totals metalTransactionId party baseTransactionId voucherNumber adminId item =
     (let partyName = partyNameOf party in
      runLegs
       [pushIf (gt0 (pureWeight totals))
          (createRegistryEntry baseTransactionId metalTransactionId ''PARTY-GOLD'' ''sales-fixing''
             (''Party gold balance - Sale to '' @ partyName)
             (Some (account_id party)) True (pureWeight totals) (Num 0)
             (noExtras\<lparr>x_debit := Some (pureWeight totals),
                x_goldDebit := Some (pureWeight totals),
                x_cashCredit := Some (goldValue totals),
                x_grossWeight := Some (grossWeight totals),
                x_goldBidValue := Some (goldBidValue totals)\<rparr>)
             voucherNumber adminId),
        pushIf (gt0 (totalAmount totals))
          (createRegistryEntry baseTransactionId metalTransactionId ''001'' ''PARTY_CASH_BALANCE''
             (''Party cash balance - Sale to '' @ partyName)
             (Some (account_id party)) False (totalAmount totals) (Num 0)
             (noExtras\<lparr>x_debit := Some (totalAmount totals),
                x_goldCredit := Some (grossWeight totals),
                x_cashCredit := Some (goldValue totals),
                x_grossWeight := Some (grossWeight totals),
                x_goldBidValue := Some (goldBidValue totals)\<rparr>)
             voucherNumber adminId),
        pushIf (gt0 (makingCharges totals))
          (createRegistryEntry baseTransactionId metalTransactionId ''002'' ''MAKING_CHARGES''
             (''Party making charges - Sale to '' @ partyName)
             (Some (account_id party)) False (makingCharges totals) (Num 0)
             (noExtras\<lparr>x_debit := Some (makingCharges totals),
                x_goldCredit := Some (grossWeight totals),
                x_cashCredit := Some (goldValue totals),
                x_grossWeight := Some (grossWeight totals),
                x_goldBidValue := Some (goldBidValue totals)\<rparr>)
             voucherNumber adminId),
        pushIfDescribed (gt0 (otherChargesAmount totals)) item (\<lambda>d.
          (createRegistryEntry baseTransactionId metalTransactionId ''008'' ''OTHER_CHARGES''
             (d @ '' charges - sale to '' @ partyName)
             (Some (account_id party)) False (otherChargesAmount totals) (Num 0)
             (noExtras\<lparr>x_debit := Some (otherChargesAmount totals),
                x_goldDebit := Some (grossWeight totals),
                x_cashDebit := Some (goldValue totals),
                x_grossWeight := Some (grossWeight totals),
                x_goldBidValue := Some (goldBidValue totals)\<rparr>)
             voucherNumber adminId)),
        pushIf (gt0 (vatAmount totals))
          (createRegistryEntry baseTransactionId metalTransactionId ''009'' ''VAT_AMOUNT''
             (''Party Vat amount - sale to '' @ partyName)
             (Some (account_id party)) False (vatAmount totals) (Num 0)
             (noExtras\<lparr>x_debit := Some (vatAmount totals),
                x_goldDebit := Some (grossWeight totals),
                x_cashDebit := Some (goldValue totals),
                x_grossWeight := Some (grossWeight totals),
                x_goldBidValue := Some (goldBidValue totals)\<rparr>)
             voucherNumber adminId),
        pushIf (gt0 (premium totals))
          (createRegistryEntry baseTransactionId metalTransactionId ''003'' ''PREMIUM''
             (''Party premium - Sale to '' @ partyName)
             (Some (account_id party)) False (premium totals) (Num 0)
             (noExtras\<lparr>x_debit := Some (premium totals),
                x_goldCredit := Some (grossWeight totals),
                x_cashCredit := Some (goldValue totals),
                x_grossWeight := Some (grossWeight totals),
                x_goldBidValue := Some (goldBidValue totals)\<rparr>)
             voucherNumber adminId),
        pushIf (gt0 (discount totals))
          (createRegistryEntry baseTransactionId metalTransactionId ''007'' ''DISCOUNT''
             (''Party discount - Sale to '' @ partyName)
             (Some (account_id party)) False (discount totals) (discount totals)
             (noExtras\<lparr>x_goldCredit := Some (grossWeight totals),
                x_cashCredit := Some (goldValue totals),
                x_grossWeight := Some (grossWeight totals),
                x_goldBidValue := Some (goldBidValue totals)\<rparr>)
             voucherNumber adminId),
        pushIf (gt0 (pureWeight totals))
          (createRegistryEntry baseTransactionId metalTransactionId ''004'' ''GOLD''
             (''Gold inventory - Sale to '' @ partyName)
             (None) True (pureWeight totals) (pureWeight totals)
             (noExtras\<lparr>x_goldCredit := Some (grossWeight totals),
                x_cashCredit := Some (goldValue totals),
                x_grossWeight := Some (grossWeight totals),
                x_goldBidValue := Some (goldBidValue totals)\<rparr>)
             voucherNumber adminId),
        pushIf (gt0 (grossWeight totals))
          (createRegistryEntry baseTransactionId metalTransactionId ''005'' ''GOLD_STOCK''
             (''Gold stock - Sale to '' @ partyName)
             (None) True (grossWeight totals) (grossWeight totals)
             (noExtras\<lparr>x_goldCredit := Some (grossWeight totals),
                x_cashCredit := Some (goldValue totals),
                x_grossWeight := Some (grossWeight totals),
                x_pureWeight := Some (pureWeight totals),
                x_purity := Some (purity totals),
                x_goldBidValue := Some (goldBidValue totals)\<rparr>)
             voucherNumber adminId)])"

definition buildSaleUnfixEntries :: builder where
  "buildSaleUnfixEntries totals metalTransactionId party baseTransactionId voucherNumber adminId item =
     (let partyName = partyNameOf party in
      runLegs
       [pushIf (gt0 (pureWeight totals))
          (createRegistryEntry baseTransactionId metalTransactionId ''001'' ''PARTY_GOLD_BALANCE''
             (''Party gold balance - Unfix Sale return from '' @ partyName)
             (Some (account_id party)) False (pureWeight totals) (Num 0)
             (noExtras\<lparr>x_debit := Some (pureWeight totals),
                x_grossWeight := Some (grossWeight totals),
                x_goldBidValue := Some (goldBidValue totals)\<rparr>)
             voucherNumber adminId),
        pushIf (gt0 (makingCharges totals))
          (createRegistryEntry baseTransactionId metalTransactionId ''003'' ''MAKING_CHARGES''
             (''Party making charges - Unfix Sale return from '' @ partyName)
             (Some (account_id party)) False (makingCharges totals) (Num 0)
             (noExtras\<lparr>x_debit := Some (makingCharges totals),
                x_grossWeight := Some (grossWeight totals),
                x_goldBidValue := Some (goldBidValue totals)\<rparr>)
             voucherNumber adminId),
        pushIfDescribed (gt0 (otherChargesAmount totals)) item (\<lambda>d.
          (createRegistryEntry baseTransactionId metalTransactionId ''008'' ''OTHER_CHARGES''
             (d @ '' charges - Unfix Sale return from '' @ partyName)
             (Some (account_id party)) False (otherChargesAmount totals) (Num 0)
             (noExtras\<lparr>x_debit := Some (otherChargesAmount totals),
                x_goldDebit := Some (grossWeight totals),
                x_cashDebit := Some (goldValue totals),
                x_grossWeight := Some (grossWeight totals),
                x_goldBidValue := Some (goldBidValue totals)\<rparr>)
             voucherNumber adminId)),
        pushIf (gt0 (vatAmount totals))
          (createRegistryEntry baseTransactionId metalTransactionId ''009'' ''VAT_AMOUNT''
             (''Party Vat amount - Unfix Sale return from '' @ partyName)
             (Some (account_id party)) False (vatAmount totals) (Num 0)
             (noExtras\<lparr>x_debit := Some (vatAmount totals),
                x_goldDebit := Some (grossWeight totals),
                x_cashDebit := Some (goldValue totals),
                x_grossWeight := Some (grossWeight totals),
                x_goldBidValue := Some (goldBidValue totals)\<rparr>)
             voucherNumber adminId),
        pushIf (gt0 (premium totals))
          (createRegistryEntry baseTransactionId metalTransactionId ''004'' ''PREMIUM''
             (''Party premium - Unfix Sale return from '' @ partyName)
             (Some (account_id party)) False (premium totals) (Num 0)
             (noExtras\<lparr>x_debit := Some (premium totals),
                x_grossWeight := Some (grossWeight totals),
                x_goldBidValue := Some (goldBidValue totals)\<rparr>)
             voucherNumber adminId),
        pushIf (gt0 (discount totals))
          (createRegistryEntry baseTransactionId metalTransactionId ''007'' ''DISCOUNT''
             (''Party discount - Unfix Sale return from '' @ partyName)
             (Some (account_id party)) False (discount totals) (discount totals)
             (noExtras\<lparr>x_grossWeight := Some (grossWeight totals),
                x_goldBidValue := Some (goldBidValue totals)\<rparr>)
             voucherNumber adminId),
        pushIf (gt0 (pureWeight totals))
          (createRegistryEntry baseTransactionId metalTransactionId ''005'' ''GOLD''
             (''Gold inventory - Unfix Sale return from '' @ partyName)
             (None) True (pureWeight totals) (pureWeight totals)
             (noExtras\<lparr>x_grossWeight := Some (grossWeight totals),
                x_goldBidValue := Some (goldBidValue totals)\<rparr>)
             voucherNumber adminId),
        pushIf (gt0 (grossWeight totals))
          (createRegistryEntry baseTransactionId metalTransactionId ''006'' ''GOLD_STOCK''
             (''Gold stock - Unfix Sale return from '' @ partyName)
             (None) True (grossWeight totals) (grossWeight totals)
             (noExtras\<lparr>x_grossWeight := Some (grossWeight totals),
                x_pureWeight := Some (pureWeight totals),
                x_purity := Some (purity totals),
                x_goldBidValue := Some (goldBidValue totals)\<rparr>)
             voucherNumber adminId)])"

definition buildSaleReturnUnfixEntries :: builder where
  "buildSaleReturnUnfixEntries totals metalTransactionId party baseTransactionId voucherNumber adminId item =
     (let partyName = partyNameOf party in
      runLegs
       [pushIf (gt0 (pureWeight totals))
          (createRegistryEntry baseTransactionId metalTransactionId ''001'' ''PARTY_GOLD_BALANCE''
             (''Party gold balance - Unfix sale return from '' @ partyName)
             (Some (account_id party)) False (pureWeight totals) (pureWeight totals)
             (noExtras\<lparr>x_grossWeight := Some (grossWeight totals),
                x_goldBidValue := Some (goldBidValue totals)\<rparr>)
             voucherNumber adminId),
        pushIf (gt0 (makingCharges totals))
          (createRegistryEntry baseTransactionId metalTransactionId ''003'' ''MAKING_CHARGES''
             (''Party making charges - Unfix sale return from '' @ partyName)
             (Some (account_id party)) False (makingCharges totals) (makingCharges totals)
             (noExtras\<lparr>x_grossWeight := Some (grossWeight totals),
                x_goldBidValue := Some (goldBidValue totals)\<rparr>)
             voucherNumber adminId),
        pushIfDescribed (gt0 (otherChargesAmount totals)) item (\<lambda>d.
          (createRegistryEntry baseTransactionId metalTransactionId ''008'' ''OTHER_CHARGES''
             (d @ '' charges - Unfix Sale return from '' @ partyName)
             (Some (account_id party)) False (otherChargesAmount totals) (otherChargesAmount totals)
             (noExtras\<lparr>x_goldDebit := Some (grossWeight totals),
                x_cashDebit := Some (goldValue totals),
                x_grossWeight := Some (grossWeight totals),
                x_goldBidValue := Some (goldBidValue totals)\<rparr>)
             voucherNumber adminId)),
        pushIf (gt0 (vatAmount totals))
          (createRegistryEntry baseTransactionId metalTransactionId ''009'' ''VAT_AMOUNT''
             (''Party Vat amount - Unfix Sale return from '' @ partyName)
             (Some (account_id party)) False (vatAmount totals) (vatAmount totals)
             (noExtras\<lparr>x_goldDebit := Some (grossWeight totals),
                x_cashDebit := Some (goldValue totals),
                x_grossWeight := Some (grossWeight totals),
                x_goldBidValue := Some (goldBidValue totals)\<rparr>)
             voucherNumber adminId),
        pushIf (gt0 (premium totals))
          (createRegistryEntry baseTransactionId metalTransactionId ''004'' ''PREMIUM''
             (''Party premium - Unfix sale return from '' @ partyName)
             (Some (account_id party)) False (premium totals) (premium totals)
             (noExtras\<lparr>x_grossWeight := Some (grossWeight totals),
                x_goldBidValue := Some (goldBidValue totals)\<rparr>)
             voucherNumber adminId),
        pushIf (gt0 (discount totals))
          (createRegistryEntry baseTransactionId metalTransactionId ''007'' ''DISCOUNT''
             (''Party discount - Unfix sale return from '' @ partyName)
             (Some (account_id party)) False (discount totals) (Num 0)
             (noExtras\<lparr>x_debit := Some (discount totals),
                x_grossWeight := Some (grossWeight totals),
                x_goldBidValue := Some (goldBidValue totals)\<rparr>)
             voucherNumber adminId),
        pushIf (gt0 (pureWeight totals))
          (createRegistryEntry baseTransactionId metalTransactionId ''005'' ''GOLD''
             (''Gold inventory - Unfix sale return from '' @ partyName)
             (None) True (pureWeight totals) (Num 0)
             (noExtras\<lparr>x_debit := Some (pureWeight totals),
                x_grossWeight := Some (grossWeight totals),
                x_goldBidValue := Some (goldBidValue totals)\<rparr>)
             voucherNumber adminId),
        pushIf (gt0 (grossWeight totals))
          (createRegistryEntry baseTransactionId metalTransactionId ''006'' ''GOLD_STOCK''
             (''Gold stock - Unfix sale return from '' @ partyName)
             (None) True (grossWeight totals) (Num 0)
             (noExtras\<lparr>x_debit := Some (grossWeight totals),
                x_grossWeight := Some (grossWeight totals),
                x_pureWeight := Some (pureWeight totals),
                x_purity := Some (purity totals),
                x_goldBidValue := Some (goldBidValue totals)\<rparr>)
             voucherNumber adminId)])"

definition buildSaleReturnFixEntries :: builder where
  "buildSaleReturnFixEntries totals metalTransactionId party baseTransactionId voucherNumber adminId item =
     (let partyName = partyNameOf party in
      runLegs
       [pushIf (gt0 (pureWeight totals))
          (createRegistryEntry baseTransactionId metalTransactionId ''PARTY-GOLD'' ''sale-fixing''
             (''Party gold balance - Sale return from '' @ partyName)
             (Some (account_id party)) True (pureWeight totals) (pureWeight totals)
             (noExtras\<lparr>x_debit := Some (Num 0),
                x_goldCredit := Some (pureWeight totals),
                x_cashDebit := Some (goldValue totals),
                x_grossWeight := Some (grossWeight totals),
                x_goldBidValue := Some (goldBidValue totals)\<rparr>)
             voucherNumber adminId),
        pushIf (gt0 (totalAmount totals))
          (createRegistryEntry baseTransactionId metalTransactionId ''001'' ''PARTY_CASH_BALANCE''
             (''Party cash balance - Sale return from '' @ partyName)
             (Some (account_id party)) False (totalAmount totals) (totalAmount totals)
             (noExtras\<lparr>x_goldCredit := Some (grossWeight totals),
                x_cashDebit := Some (goldValue totals),
                x_grossWeight := Some (grossWeight totals),
                x_goldBidValue := Some (goldBidValue totals)\<rparr>)
             voucherNumber adminId),
        pushIf (gt0 (makingCharges totals))
          (createRegistryEntry baseTransactionId metalTransactionId ''002'' ''MAKING_CHARGES''
             (''Party making charges - Sale return from '' @ partyName)
             (Some (account_id party)) False (makingCharges totals) (makingCharges totals)
             (noExtras\<lparr>x_goldCredit := Some (grossWeight totals),
                x_cashDebit := Some (goldValue totals),
                x_grossWeight := Some (grossWeight totals),
                x_goldBidValue := Some (goldBidValue totals)\<rparr>)
             voucherNumber adminId),
        pushIfDescribed (gt0 (otherChargesAmount totals)) item (\<lambda>d.
          (createRegistryEntry baseTransactionId metalTransactionId ''008'' ''OTHER_CHARGES''
             (d @ '' charges -  Sale return from '' @ partyName)
             (Some (account_id party)) False (otherChargesAmount totals) (otherChargesAmount totals)
             (noExtras\<lparr>x_goldDebit := Some (grossWeight totals),
                x_cashDebit := Some (goldValue totals),
                x_grossWeight := Some (grossWeight totals),
                x_goldBidValue := Some (goldBidValue totals)\<rparr>)
             voucherNumber adminId)),
        pushIf (gt0 (vatAmount totals))
          (createRegistryEntry baseTransactionId metalTransactionId ''009'' ''VAT_AMOUNT''
             (''Party Vat amount -  Sale return from '' @ partyName)
             (Some (account_id party)) False (vatAmount totals) (vatAmount totals)
             (noExtras\<lparr>x_goldDebit := Some (grossWeight totals),
                x_cashDebit := Some (goldValue totals),
                x_grossWeight := Some (grossWeight totals),
                x_goldBidValue := Some (goldBidValue totals)\<rparr>)
             voucherNumber adminId),
        pushIf (gt0 (premium totals))
          (createRegistryEntry baseTransactionId metalTransactionId ''003'' ''PREMIUM''
             (''Party premium - Sale return from '' @ partyName)
             (Some (account_id party)) False (premium totals) (premium totals)
             (noExtras\<lparr>x_goldCredit := Some (grossWeight totals),
                x_cashDebit := Some (goldValue totals),
                x_grossWeight := Some (grossWeight totals),
                x_goldBidValue := Some (goldBidValue totals)\<rparr>)
             voucherNumber adminId),
        pushIf (gt0 (discount totals))
          (createRegistryEntry baseTransactionId metalTransactionId ''007'' ''DISCOUNT''
             (''Party discount - Sale return from '' @ partyName)
             (Some (account_id party)) False (discount totals) (Num 0)
             (noExtras\<lparr>x_debit := Some (discount totals),
                x_goldCredit := Some (grossWeight totals),
                x_cashDebit := Some (goldValue totals),
                x_grossWeight := Some (grossWeight totals),
                x_goldBidValue := Some (goldBidValue totals)\<rparr>)
             voucherNumber adminId),
        pushIf (gt0 (pureWeight totals))
          (createRegistryEntry baseTransactionId metalTransactionId ''004'' ''GOLD''
             (''Gold inventory - Sale return from '' @ partyName)
             (None) True (pureWeight totals) (Num 0)
             (noExtras\<lparr>x_debit := Some (pureWeight totals),
                x_goldCredit := Some (grossWeight totals),
                x_cashDebit := Some (goldValue totals), x_purity := Some (purity totals),
                x_grossWeight := Some (grossWeight totals),
                x_goldBidValue := Some (goldBidValue totals)\<rparr>)
             voucherNumber adminId),
        pushIf (gt0 (grossWeight totals))
          (createRegistryEntry baseTransactionId metalTransactionId ''005'' ''GOLD_STOCK''
             (''Gold stock - Sale return from '' @ partyName)
             (None) True (grossWeight totals) (Num 0)
             (noExtras\<lparr>x_debit := Some (grossWeight totals),
                x_goldCredit := Some (grossWeight totals),
                x_cashDebit := Some (goldValue totals),
                x_grossWeight := Some (grossWeight totals),
                x_pureWeight := Some (pureWeight totals),
                x_purity := Some (purity totals),
                x_goldBidValue := Some (goldBidValue totals)\<rparr>)
             voucherNumber adminId)])"

definition buildPurchaseEntries :: "txmode \<Rightarrow> builder" where
  "buildPurchaseEntries mode =
     (case mode of Fix \<Rightarrow> buildPurchaseFixEntries | Unfix \<Rightarrow> buildPurchaseUnfixEntries)"

definition buildSaleEntries :: "txmode \<Rightarrow> builder" where
  "buildSaleEntries mode =
     (case mode of Fix \<Rightarrow> buildSaleFixEntries | Unfix \<Rightarrow> buildSaleUnfixEntries)"

definition buildPurchaseReturnEntries :: "txmode \<Rightarrow> builder" where
  "buildPurchaseReturnEntries mode =
     (case mode of
        Fix \<Rightarrow> buildPurchaseReturnFixEntries
      | Unfix \<Rightarrow> buildPurchaseReturnUnfixEntries)"

definition buildSaleReturnEntries :: "txmode \<Rightarrow> builder" where
  "buildSaleReturnEntries mode =
     (case mode of Fix \<Rightarrow> buildSaleReturnFixEntries | Unfix \<Rightarrow> buildSaleReturnUnfixEntries)"

text \<open>Decimal digits of a natural number, as a template string prints it.\<close>

fun decimal :: "nat \<Rightarrow> string" where
  "decimal n =
     (if n < 10 then [char_of (48 + n)] else decimal (n div 10) @ [char_of (48 + n mod 10)])"

declare decimal.simps [simp del]

text \<open>
  \<open>generateTransactionId\<close>. The year of the clock and the value of \<open>Math.random()\<close>, a
  number in \<open>[0, 1)\<close>, are arguments of the model.
\<close>

definition randomNum :: "rat \<Rightarrow> nat" where
  "randomNum rnd = nat \<lfloor>rnd * 900\<rfloor> + 100"

definition generateTransactionId :: "nat \<Rightarrow> rat \<Rightarrow> string" where
  "generateTransactionId currentYear rnd =
     ''TXN-'' @ decimal currentYear @ ''-'' @ decimal (randomNum rnd)"

text \<open>The fields of a Metal Transaction document that the engine reads.\<close>

record metalTransaction =
  tx_id :: objectId
  transactionType :: string
  fixed :: bool
  unfix :: bool
  stockItems :: "stockItem list"
  totalAmountSession :: "sessionTotals option"
  voucherNumber :: string
  partyCode :: objectId
  isActive :: bool

text \<open>\<open>entries.filter(Boolean)\<close>\<close>

fun filterBoolean :: "'a option list \<Rightarrow> 'a list" where
  "filterBoolean [] = []"
| "filterBoolean (None # xs) = filterBoolean xs"
| "filterBoolean (Some x # xs) = x # filterBoolean xs"

text \<open>The body of the loop over the stock items: the totals of the single item, then the
  builder of the transaction kind; no posting for any other kind.\<close>

definition entriesOfItem ::
  "metalTransaction \<Rightarrow> account \<Rightarrow> objectId \<Rightarrow> string \<Rightarrow> txmode \<Rightarrow> stockItem \<Rightarrow>
   jsError + registryEntry option list" where
  "entriesOfItem metalTransaction party adminId baseTransactionId mode item =
     (let totals = calculateTotals [item] (totalAmountSession metalTransaction);
          kind = transactionType metalTransaction
      in if kind = ''purchase'' then
           buildPurchaseEntries mode totals (tx_id metalTransaction) party baseTransactionId
             (voucherNumber metalTransaction) adminId item
         else if kind = ''sale'' then
           buildSaleEntries mode totals (tx_id metalTransaction) party baseTransactionId
             (voucherNumber metalTransaction) adminId item
         else if kind = ''purchaseReturn'' then
           buildPurchaseReturnEntries mode totals (tx_id metalTransaction) party
             baseTransactionId (voucherNumber metalTransaction) adminId item
         else if kind = ''saleReturn'' then
           buildSaleReturnEntries mode totals (tx_id metalTransaction) party baseTransactionId
             (voucherNumber metalTransaction) adminId item
         else Inr [])"

definition buildRegistryEntries ::
  "nat \<Rightarrow> rat \<Rightarrow> metalTransaction \<Rightarrow> account \<Rightarrow> objectId \<Rightarrow> jsError + registryEntry list" where
  "buildRegistryEntries currentYear rnd metalTransaction party adminId =
     (let baseTransactionId = generateTransactionId currentYear rnd;
          mode = getTransactionMode (fixed metalTransaction) (unfix metalTransaction)
      in case runLegs
             (map (entriesOfItem metalTransaction party adminId baseTransactionId mode)
                (stockItems metalTransaction)) of
           Inl err \<Rightarrow> Inl err
         | Inr entries \<Rightarrow> Inr (filterBoolean entries))"

section \<open>Transaction Lifecycle Coordinator\<close>

text \<open>
  The collections the coordinator works on. A collection is the list of its documents;
  \<open>_id\<close> is a field of the document.
\<close>

record order =
  quantityGm :: jsnum
  price :: jsnum

record transactionFixing =
  fx_id :: objectId
  fx_partyId :: objectId
  fx_type :: string
  orders :: "order list"
  status :: string
  updatedBy :: "objectId option"

record database =
  accounts :: "account list"
  registry :: "registryEntry list"
  metalTransactions :: "metalTransaction list"
  transactionFixings :: "transactionFixing list"

text \<open>An id as a request passes it: a well-formed ObjectId, or a string that is none.\<close>

datatype rawId = ObjectId objectId | Malformed string

text \<open>\<open>findOneAndUpdate\<close> and \<open>deleteOne\<close> touch the first document that matches.\<close>

fun updateFirst :: "('a \<Rightarrow> bool) \<Rightarrow> ('a \<Rightarrow> 'a) \<Rightarrow> 'a list \<Rightarrow> 'a list" where
  "updateFirst p f [] = []"
| "updateFirst p f (x # xs) = (if p x then f x # xs else x # updateFirst p f xs)"

fun deleteFirst :: "('a \<Rightarrow> bool) \<Rightarrow> 'a list \<Rightarrow> 'a list" where
  "deleteFirst p [] = []"
| "deleteFirst p (x # xs) = (if p x then xs else x # deleteFirst p xs)"

text \<open>
  A MongoDB session with a transaction: the writes made with the session are seen only
  in the working state until the commit; a write made without the session is not part
  of the transaction and is stored at once. Abort keeps the stored state.
\<close>

record unitOfWork =
  stored :: database
  working :: database

definition startTransaction :: "database \<Rightarrow> unitOfWork" where
  "startTransaction db = \<lparr>stored = db, working = db\<rparr>"

definition inSession :: "(database \<Rightarrow> database) \<Rightarrow> unitOfWork \<Rightarrow> unitOfWork" where
  "inSession w u = u\<lparr>working := w (working u)\<rparr>"

definition withoutSession :: "(database \<Rightarrow> database) \<Rightarrow> unitOfWork \<Rightarrow> unitOfWork" where
  "withoutSession w u = u\<lparr>stored := w (stored u), working := w (working u)\<rparr>"

definition commitTransaction :: "unitOfWork \<Rightarrow> database" where
  "commitTransaction u = working u"

definition abortTransaction :: "unitOfWork \<Rightarrow> database" where
  "abortTransaction u = stored u"

text \<open>\<open>Registry.deleteMany({ metalTransactionId: metalTransaction._id })\<close>\<close>

definition deleteManyRegistry :: "objectId \<Rightarrow> database \<Rightarrow> database" where
  "deleteManyRegistry k db =
     db\<lparr>registry := filter (\<lambda>e. e_metalTransactionId e \<noteq> k) (registry db)\<rparr>"

text \<open>\<open>deleteRegistryEntry(metalTransaction, session = null)\<close>: the query joins the
  session only if one is passed.\<close>

definition deleteRegistryEntry :: "metalTransaction \<Rightarrow> bool \<Rightarrow> unitOfWork \<Rightarrow> unitOfWork" where
  "deleteRegistryEntry metalTransaction session u =
     (if session then inSession (deleteManyRegistry (tx_id metalTransaction)) u
      else withoutSession (deleteManyRegistry (tx_id metalTransaction)) u)"

text \<open>\<open>Account.findByIdAndUpdate(id, { $inc: ... })\<close> on the three balance paths.\<close>

definition incBalances :: "objectId \<Rightarrow> updateOps \<Rightarrow> database \<Rightarrow> database" where
  "incBalances k ops db =
     db\<lparr>accounts :=
          updateFirst (\<lambda>a. account_id a = k)
            (\<lambda>a. a\<lparr>totalGrams := jadd (totalGrams a) (incAmount (inc_totalGrams ops)),
                   totalValue := jadd (totalValue a) (incAmount (inc_totalValue ops)),
                   cashAmount := jadd (cashAmount a) (incAmount (inc_cashAmount ops))\<rparr>)
            (accounts db)\<rparr>"

text \<open>\<open>updateAccountBalances(party, metalTransaction, session)\<close>, the balance step of
  create: the update document always has a \<open>$set\<close> part, so the update is always sent.\<close>

definition updateAccountBalances :: "account \<Rightarrow> metalTransaction \<Rightarrow> unitOfWork \<Rightarrow> unitOfWork" where
  "updateAccountBalances party metalTransaction u =
     (let totals = calculateTotals (stockItems metalTransaction)
                     (totalAmountSession metalTransaction);
          mode = getTransactionMode (fixed metalTransaction) (unfix metalTransaction);
          balanceChanges = calculateBalanceChanges (transactionType metalTransaction) mode totals;
          ops = buildUpdateOperations balanceChanges
      in inSession (incBalances (account_id party) ops) u)"

text \<open>
  The update document of \<open>updateTradeDebtorsBalances\<close>, the balance step of update
  (reversal of the original transaction) and of delete. The \<open>balances.summary\<close> and
  \<open>balances.lastTransactionDate\<close> it also sets are not paths of the Account schema; the
  final \<open>party.save\<close> finds no balance path modified on the document it loaded.
\<close>

definition tradeDebtorsOps :: "balanceChanges \<Rightarrow> bool \<Rightarrow> updateOps" where
  "tradeDebtorsOps c isReversal =
     (let moveGold = ne0 (goldBalance c) \<or> ne0 (goldValueChange c);
          net = netCashChange c
      in \<lparr>inc_totalGrams =
             (if moveGold then Some (if isReversal then jneg (goldBalance c) else goldBalance c)
              else None),
          inc_totalValue =
             (if moveGold
              then Some (if isReversal then jneg (goldValueChange c) else goldValueChange c)
              else None),
          inc_cashAmount =
             (if ne0 net then Some (if isReversal then jneg net else net) else None),
          set_goldLastUpdated = moveGold,
          set_cashLastUpdated = ne0 net,
          set_lastBalanceUpdate = False\<rparr>)"

definition updateTradeDebtorsBalances ::
  "objectId \<Rightarrow> metalTransaction \<Rightarrow> bool \<Rightarrow> bool \<Rightarrow> unitOfWork \<Rightarrow> jsError + unitOfWork" where
  "updateTradeDebtorsBalances partyId transaction isUpdate isReversal u =
     (case find (\<lambda>a. account_id a = partyId) (accounts (working u)) of
        None \<Rightarrow> Inl (AppError ''PARTY_NOT_FOUND'')
      | Some party \<Rightarrow>
          (let totals = calculateTotals (stockItems transaction) (totalAmountSession transaction);
               mode = getTransactionMode (fixed transaction) (unfix transaction);
               balanceChanges = calculateBalanceChanges (transactionType transaction) mode totals
           in Inr (inSession (incBalances partyId (tradeDebtorsOps balanceChanges isReversal)) u)))"

text \<open>\<open>MetalTransaction.deleteOne({ _id: transactionId }).session(session)\<close>\<close>

definition deleteOneTransaction :: "objectId \<Rightarrow> database \<Rightarrow> database" where
  "deleteOneTransaction k db =
     db\<lparr>metalTransactions := deleteFirst (\<lambda>t. tx_id t = k) (metalTransactions db)\<rparr>"

text \<open>
  \<open>deleteMetalTransaction(transactionId, adminId)\<close>: the result, or the error thrown,
  and the database that is stored afterwards. \<open>party._id\<close> on a party that is not found
  is a TypeError. Failures of the storage itself are not part of the model.
\<close>

definition deleteMetalTransaction ::
  "rawId \<Rightarrow> objectId \<Rightarrow> database \<Rightarrow> (jsError + string) \<times> database" where
  "deleteMetalTransaction transactionId adminId db =
     (let u = startTransaction db in
      case transactionId of
        Malformed _ \<Rightarrow> (Inl CastError, abortTransaction u)
      | ObjectId k \<Rightarrow>
          (case find (\<lambda>t. tx_id t = k) (metalTransactions (working u)) of
             None \<Rightarrow> (Inl (AppError ''TRANSACTION_NOT_FOUND''), abortTransaction u)
           | Some transaction \<Rightarrow>
               if \<not> isActive transaction
               then (Inl (AppError ''TRANSACTION_NOT_FOUND''), abortTransaction u)
               else
                 (let u1 = deleteRegistryEntry transaction False u in
                  case find (\<lambda>a. account_id a = partyCode transaction) (accounts (working u1)) of
                    None \<Rightarrow> (Inl TypeError, abortTransaction u1)
                  | Some party \<Rightarrow>
                      (case updateTradeDebtorsBalances (account_id party) transaction False True u1 of
                         Inl err \<Rightarrow> (Inl err, abortTransaction u1)
                       | Inr u2 \<Rightarrow>
                           (Inr ''Metal transaction deleted successfully'',
                            commitTransaction (inSession (deleteOneTransaction k) u2))))))"

text \<open>
  \<open>cancelTransaction(id, adminId)\<close> of the TransactionFixing service: the document
  returned (\<open>null\<close> is \<open>None\<close>) or the error thrown, and the database afterwards. The
  function opens no session. A CastError is rethrown as the application error
  \<open>INVALID_ID\<close>.
\<close>

definition cancelTransaction ::
  "rawId \<Rightarrow> objectId \<Rightarrow> database \<Rightarrow> (jsError + transactionFixing option) \<times> database" where
  "cancelTransaction id' adminId db =
     (case id' of
        Malformed _ \<Rightarrow> (Inl (AppError ''INVALID_ID''), db)
      | ObjectId k \<Rightarrow>
          (case find (\<lambda>t. fx_id t = k) (transactionFixings db) of
             None \<Rightarrow> (Inl (AppError ''NOT_FOUND''), db)
           | Some transaction \<Rightarrow>
               (let db' = db\<lparr>transactionFixings :=
                              updateFirst (\<lambda>t. fx_id t = k)
                                (\<lambda>t. t\<lparr>status := ''cancelled'', updatedBy := Some adminId\<rparr>)
                                (transactionFixings db)\<rparr>
                in (Inr (find (\<lambda>t. fx_id t = k) (transactionFixings db')), db'))))"

section \<open>Predicates of the properties\<close>

text \<open>
  The component of the totals that a posting of a given \<open>type\<close> stands for, after the
  list of legs in the description of the Posting Builder: the gold and fixing legs carry
  the pure weight, the cash-balance leg the gold value or the total amount, the stock leg
  the gross weight, and each charge leg its own amount.
\<close>

definition legComponents :: "string \<Rightarrow> totals \<Rightarrow> jsnum list" where
  "legComponents entryType t =
     (if entryType \<in> set [''purchase-fixing'', ''sales-fixing'', ''sale-fixing'',
                            ''PARTY_GOLD_BALANCE'', ''GOLD''] then [pureWeight t]
      else if entryType = ''PARTY_CASH_BALANCE'' then [goldValue t, totalAmount t]
      else if entryType = ''MAKING_CHARGES'' then [makingCharges t]
      else if entryType = ''OTHER_CHARGES'' then [otherChargesAmount t]
      else if entryType = ''VAT_AMOUNT'' then [vatAmount t]
      else if entryType = ''PREMIUM'' then [premium t]
      else if entryType = ''DISCOUNT'' then [discount t]
      else if entryType = ''GOLD_STOCK'' then [grossWeight t]
      else [])"

text \<open>What a builder pushes is \<open>null\<close>, or a posting whose value is strictly positive
  and is the component of its leg.\<close>

definition positiveLeg :: "totals \<Rightarrow> registryEntry option \<Rightarrow> bool" where
  "positiveLeg t x =
     (case x of
        None \<Rightarrow> True
      | Some e \<Rightarrow> gt0 (e_value e) \<and> e_value e \<in> set (legComponents (e_type e) t))"

text \<open>A run of statements satisfies \<open>P\<close> when it throws, or every element it pushed
  satisfies \<open>P\<close>.\<close>

definition legOK :: "('a \<Rightarrow> bool) \<Rightarrow> jsError + 'a list \<Rightarrow> bool" where
  "legOK P l = (case l of Inl _ \<Rightarrow> True | Inr xs \<Rightarrow> list_all P xs)"

text \<open>A posting of a transaction has a strictly positive value, which is the component
  of its leg in the totals of one of the stock items.\<close>

definition positivePosting :: "metalTransaction \<Rightarrow> registryEntry \<Rightarrow> bool" where
  "positivePosting tx e =
     (gt0 (e_value e) \<and>
      list_ex (\<lambda>item. e_value e \<in>
          set (legComponents (e_type e) (calculateTotals [item] (totalAmountSession tx))))
        (stockItems tx))"

text \<open>The sum of a list of numbers, added from the left starting at \<open>0\<close>.\<close>

definition jsum :: "jsnum list \<Rightarrow> jsnum" where
  "jsum xs = foldl jadd (Num 0) xs"

text \<open>The first truthy number of a list, \<open>0\<close> when there is none.\<close>

fun firstTruthy :: "jsnum list \<Rightarrow> jsnum" where
  "firstTruthy [] = Num 0"
| "firstTruthy (x # xs) = (if truthy x then x else firstTruthy xs)"

text \<open>The premium/discount amount of an item as the reducer reads it.\<close>

definition premiumDiscountAmount :: "stockItem \<Rightarrow> jsnum" where
  "premiumDiscountAmount item =
     orElse (Option.bind (item_itemTotal item) premiumTotal)
       (orElse (Option.bind (item_premium item) amount) (Num 0))"

text \<open>A run of statements that, when it does not throw, pushes postings whose
  transactionIds are, in order, some of the ids \<open>ks\<close>.\<close>

definition legIds :: "jsError + registryEntry option list \<Rightarrow> string list \<Rightarrow> bool" where
  "legIds l ks =
     (case l of Inl _ \<Rightarrow> True | Inr xs \<Rightarrow> subseq (map e_transactionId (filterBoolean xs)) ks)"

text \<open>The suffixes of the legs, in the order of the builders: of the four builders of
  fix mode and of the four builders of unfix mode.\<close>

definition fixSuffixes :: "string list" where
  "fixSuffixes = [''PARTY-GOLD'', ''001'', ''002'', ''008'', ''009'', ''003'', ''007'', ''004'', ''005'']"

definition unfixSuffixes :: "string list" where
  "unfixSuffixes = [''001'', ''003'', ''008'', ''009'', ''004'', ''007'', ''005'', ''006'']"

definition withBase :: "string \<Rightarrow> string list \<Rightarrow> string list" where
  "withBase b sufs = map (\<lambda>sfx. b @ ''-'' @ sfx) sufs"

text \<open>The suffixes that the builders of a mode use.\<close>

definition modeSuffixes :: "txmode \<Rightarrow> string list" where
  "modeSuffixes mode = (case mode of Fix \<Rightarrow> fixSuffixes | Unfix \<Rightarrow> unfixSuffixes)"

section \<open>Example data\<close>

text \<open>A stock item of 10 g with a base amount of 5000 and no charges, a party, and a
  purchase in fix mode of that one item.\<close>

definition item0 :: stockItem where
  "item0 =
     \<lparr>item_itemTotal =
        Some \<lparr>baseAmount = Some (Num 5000), makingChargesTotal = Some (Num 0),
              premiumTotal = Some (Num 0)\<rparr>,
      item_makingCharges = Some \<lparr>amount = Some (Num 0), rate = Some (Num 0)\<rparr>,
      item_premium = Some \<lparr>amount = Some (Num 0), rate = Some (Num 0)\<rparr>,
      item_vat = Some \<lparr>amount = Some (Num 0), rate = Some (Num 0)\<rparr>,
      item_otherCharges =
        Some \<lparr>amount = Some (Num 0), rate = Some (Num 0), description = None\<rparr>,
      item_metalRateRequirements = Some \<lparr>amount = Some (Num 0), rate = Some (Num 500)\<rparr>,
      item_pureWeight = Some (Num 10), item_purity = Some (Num 1),
      item_grossWeight = Some (Num 10)\<rparr>"

definition session0 :: "sessionTotals option" where
  "session0 = Some \<lparr>totalAmountAED = Some (Num 5000)\<rparr>"

definition party0 :: account where
  "party0 =
     \<lparr>account_id = 1, accountCode = ''AC1'', customerName = ''Acme'', account_isActive = True,
      totalGrams = Num 0, totalValue = Num 0, cashAmount = Num 0\<rparr>"

definition tx0 :: metalTransaction where
  "tx0 =
     \<lparr>tx_id = 3, transactionType = ''purchase'', fixed = True, unfix = False,
      stockItems = [item0], totalAmountSession = session0,
      voucherNumber = ''V1'', partyCode = 1, isActive = True\<rparr>"

text \<open>The GOLD posting of \<open>tx0\<close>, as a row of the Registry owned by transaction \<open>k\<close>.\<close>

definition posting :: "objectId \<Rightarrow> registryEntry" where
  "posting k =
     \<lparr>e_transactionId = ''TXN-2025-550-004'', e_metalTransactionId = k, e_type = ''GOLD'',
      e_description = ''Gold inventory - Purchase from Acme'', e_party = None,
      e_isBullion = True, e_value = Num 10, e_credit = Num 0, e_cashDebit = Num 5000,
      e_goldCredit = Num 0, e_cashCredit = Num 0, e_goldDebit = Num 10, e_debit = Num 10,
      e_goldBidValue = Some (Num 500), e_reference = ''V1'', e_createdBy = 7,
      e_grossWeight = Some (Num 10), e_pureWeight = Some (Num 10),
      e_purity = Some (Num 1)\<rparr>"

text \<open>The four postings of \<open>tx0\<close> for the year 2025 and the random number 550.\<close>

definition entries0 :: "registryEntry list" where
  "entries0 =
     [\<lparr>e_transactionId = ''TXN-2025-550-PARTY-GOLD'', e_metalTransactionId = 3,
       e_type = ''purchase-fixing'',
       e_description = ''Party gold balance - Purchase from Acme'', e_party = Some 1,
       e_isBullion = True, e_value = Num 10, e_credit = Num 10, e_cashDebit = Num 5000,
       e_goldCredit = Num 10, e_cashCredit = Num 0, e_goldDebit = Num 0, e_debit = Num 0,
       e_goldBidValue = Some (Num 500), e_reference = ''V1'', e_createdBy = 7,
       e_grossWeight = Some (Num 10), e_pureWeight = None, e_purity = None\<rparr>,
      \<lparr>e_transactionId = ''TXN-2025-550-001'', e_metalTransactionId = 3,
       e_type = ''PARTY_CASH_BALANCE'',
       e_description = ''Party cash balance - Purchase from Acme'', e_party = Some 1,
       e_isBullion = False, e_value = Num 5000, e_credit = Num 5000, e_cashDebit = Num 5000,
       e_goldCredit = Num 0, e_cashCredit = Num 0, e_goldDebit = Num 10, e_debit = Num 0,
       e_goldBidValue = Some (Num 500), e_reference = ''V1'', e_createdBy = 7,
       e_grossWeight = Some (Num 10), e_pureWeight = None, e_purity = None\<rparr>,
      posting 3,
      \<lparr>e_transactionId = ''TXN-2025-550-005'', e_metalTransactionId = 3,
       e_type = ''GOLD_STOCK'', e_description = ''Gold stock - Purchase from Acme'',
       e_party = None, e_isBullion = True, e_value = Num 10, e_credit = Num 0,
       e_cashDebit = Num 5000, e_goldCredit = Num 0, e_cashCredit = Num 0,
       e_goldDebit = Num 10, e_debit = Num 10, e_goldBidValue = Some (Num 500),
       e_reference = ''V1'', e_createdBy = 7, e_grossWeight = Some (Num 10),
       e_pureWeight = Some (Num 10), e_purity = Some (Num 1)\<rparr>]"

text \<open>The same purchase with two stock items.\<close>

definition txTwoItems :: metalTransaction where
  "txTwoItems = tx0\<lparr>stockItems := [item0, item0]\<rparr>"


text \<open>A database in which the party of \<open>tx0\<close> has been deleted, while the Registry
  still holds two postings of \<open>tx0\<close> and one of another transaction.\<close>

definition dbOrphan :: database where
  "dbOrphan =
     \<lparr>accounts = [], registry = [posting 3, posting 4, posting 3],
      metalTransactions = [tx0], transactionFixings = []\<rparr>"

text \<open>A purchase in unfix mode whose making charges are 0.125, and the database after
  its creation has applied the balance step to the party.\<close>

definition itemEighth :: stockItem where
  "itemEighth =
     item0\<lparr>item_itemTotal :=
        Some \<lparr>baseAmount = Some (Num 5000), makingChargesTotal = Some (Num (1 / 8)),
              premiumTotal = Some (Num 0)\<rparr>\<rparr>"

definition txEighth :: metalTransaction where
  "txEighth = tx0\<lparr>fixed := False, unfix := True, stockItems := [itemEighth]\<rparr>"

definition dbNew :: database where
  "dbNew =
     \<lparr>accounts = [party0], registry = [], metalTransactions = [txEighth],
      transactionFixings = []\<rparr>"

definition dbCreated :: database where
  "dbCreated = commitTransaction (updateAccountBalances party0 txEighth (startTransaction dbNew))"

text \<open>An active fixing transaction and a database that holds it.\<close>

definition fixing5 :: transactionFixing where
  "fixing5 =
     \<lparr>fx_id = 5, fx_partyId = 1, fx_type = ''purchase'',
      orders = [\<lparr>quantityGm = Num 10, price = Num 500\<rparr>], status = ''active'',
      updatedBy = None\<rparr>"

definition dbFixing :: database where
  "dbFixing =
     \<lparr>accounts = [party0], registry = [posting 3], metalTransactions = [tx0],
      transactionFixings = [fixing5]\<rparr>"

section \<open>Properties\<close>

subsection \<open>Mode resolution and Balance Mutator\<close>





text \<open>
  C4 (counterexample). With both flags true the function returns \<open>"fix"\<close>, not
  \<open>"unfix"\<close>, although \<open>fixed && !unfix\<close> is false there.
\<close>

theorem getTransactionMode_both_true:
  "getTransactionMode True True = Fix \<and> getTransactionMode True True \<noteq> Unfix \<and> \<not> (True \<and> \<not> True)"
  by (simp add: getTransactionMode_def)

text \<open>
  C4 (amended). \<open>getTransactionMode\<close> returns \<open>"fix"\<close> exactly when \<open>fixed\<close> is true,
  whatever \<open>unfix\<close> is, and \<open>"unfix"\<close> exactly when \<open>fixed\<close> is false, which includes
  the case of both flags false.
\<close>

theorem getTransactionMode_fix_iff_fixed:
  "(getTransactionMode f u = Fix) = f \<and>
   (getTransactionMode f u = Unfix) = (\<not> f) \<and>
   getTransactionMode False False = Unfix \<and>
   getTransactionMode True True = Fix"
  by (simp add: getTransactionMode_def)








text \<open>
  C2. In fix mode, for each of the four transaction kinds and every totals record, the
  delta is zero in \<open>goldBalance\<close>, \<open>goldValue\<close>, \<open>premiumBalance\<close>,
  \<open>discountBalance\<close> and \<open>otherCharges\<close>, and its \<open>cashBalance\<close> is \<open>+totalAmount\<close>
  for purchase and saleReturn and \<open>-totalAmount\<close> for sale and purchaseReturn; the
  \<open>totalAmount\<close> that \<open>calculateTotals\<close> returns is
  \<open>totalAmountSession?.totalAmountAED || 0\<close>.
\<close>

theorem fix_mode_delta:
  "calculateBalanceChanges ''purchase'' Fix t = zeroChanges\<lparr>cashBalance := totalAmount t\<rparr> \<and>
   calculateBalanceChanges ''saleReturn'' Fix t = zeroChanges\<lparr>cashBalance := totalAmount t\<rparr> \<and>
   calculateBalanceChanges ''sale'' Fix t
     = zeroChanges\<lparr>cashBalance := jneg (totalAmount t)\<rparr> \<and>
   calculateBalanceChanges ''purchaseReturn'' Fix t
     = zeroChanges\<lparr>cashBalance := jneg (totalAmount t)\<rparr> \<and>
   totalAmount (calculateTotals items session)
     = orElse (Option.bind session totalAmountAED) (Num 0)"
  by (simp add: calculateBalanceChanges_def zeroChanges_def calculateTotals_def Let_def)

text \<open>
  C10. In either mode and for every totals record, a purchase return has exactly the
  deltas of a sale, and a sale return exactly the deltas of a purchase.
\<close>

theorem return_kinds_mirror:
  "calculateBalanceChanges ''purchaseReturn'' m t = calculateBalanceChanges ''sale'' m t \<and>
   calculateBalanceChanges ''saleReturn'' m t = calculateBalanceChanges ''purchase'' m t"
  by (simp add: calculateBalanceChanges_def)

text \<open>On the reversal path the cash balance moves by the negated net cash delta as
  it is: \<open>updateTradeDebtorsBalances\<close> does not round.\<close>


lemma reversal_cash_unrounded:
  "incAmount (inc_cashAmount (tradeDebtorsOps c True)) = jneg (netCashChange c)"
  by (cases "netCashChange c") (simp_all add: tradeDebtorsOps_def Let_def)

subsection \<open>Totals Calculator\<close>

text \<open>
  What the reduction computes: each of the sums read with a fallback is the sum of the
  items' values, \<open>goldBidValue\<close> is the first truthy rate, and the VAT and
  other-charges sums are the sums of the items' amounts when every item has one.
\<close>

lemma foldl_addItem_fields:
  "makingCharges (foldl addItem acc items)
     = foldl jadd (makingCharges acc)
         (map (\<lambda>i. orElse (Option.bind (item_itemTotal i) makingChargesTotal)
                 (orElse (Option.bind (item_makingCharges i) amount) (Num 0))) items)"
  "premium (foldl addItem acc items)
     = foldl jadd (premium acc)
         (map (\<lambda>i. if gt0 (premiumDiscountAmount i) then premiumDiscountAmount i else Num 0) items)"
  "discount (foldl addItem acc items)
     = foldl jadd (discount acc)
         (map (\<lambda>i. if lt0 (premiumDiscountAmount i) then jabs (premiumDiscountAmount i) else Num 0)
            items)"
  "goldValue (foldl addItem acc items)
     = foldl jadd (goldValue acc)
         (map (\<lambda>i. orElse (Option.bind (item_itemTotal i) baseAmount) (Num 0)) items)"
  "pureWeight (foldl addItem acc items)
     = foldl jadd (pureWeight acc) (map (\<lambda>i. orElse (item_pureWeight i) (Num 0)) items)"
  "grossWeight (foldl addItem acc items)
     = foldl jadd (grossWeight acc) (map (\<lambda>i. orElse (item_grossWeight i) (Num 0)) items)"
  "purity (foldl addItem acc items)
     = foldl jadd (purity acc) (map (\<lambda>i. orElse (item_purity i) (Num 0)) items)"
  "vatAmount (foldl addItem acc items)
     = foldl jaddU (vatAmount acc) (map (\<lambda>i. Option.bind (item_vat i) amount) items)"
  "otherChargesAmount (foldl addItem acc items)
     = foldl jaddU (otherChargesAmount acc)
         (map (\<lambda>i. Option.bind (item_otherCharges i) amount) items)"
  by (induction items arbitrary: acc)
    (simp_all add: addItem_def Let_def premiumDiscountAmount_def)

lemma orElse_zero_falsy: "\<not> truthy (orElse x (Num 0)) \<Longrightarrow> orElse x (Num 0) = Num 0"
  by (cases x) (simp_all split: if_splits)

lemma foldl_addItem_goldBidValue:
  "goldBidValue (foldl addItem acc items)
     = (if truthy (goldBidValue acc) \<or> items = [] then goldBidValue acc
        else firstTruthy
          (map (\<lambda>i. orElse (Option.bind (item_metalRateRequirements i) rate) (Num 0)) items))"
proof (induction items arbitrary: acc)
  case Nil
  then show ?case by simp
next
  case (Cons i items)
  let ?r = "orElse (Option.bind (item_metalRateRequirements i) rate) (Num 0)"
  have step: "goldBidValue (addItem acc i)
      = (if truthy (goldBidValue acc) then goldBidValue acc else ?r)"
    by (simp add: addItem_def Let_def)
  show ?case
  proof (cases "truthy (goldBidValue acc)")
    case True
    then show ?thesis by (simp add: Cons.IH step)
  next
    case False
    show ?thesis
    proof (cases "truthy ?r")
      case True
      with False show ?thesis by (simp add: Cons.IH step)
    next
      case r: False
      then have "?r = Num 0" by (rule orElse_zero_falsy)
      with False r show ?thesis by (simp add: Cons.IH step)
    qed
  qed
qed

lemma foldl_jaddU_Some: "foldl jaddU a (map Some xs) = foldl jadd a xs"
  by (induction xs arbitrary: a) simp_all

lemma calculateTotals_sums:
  "pureWeight (calculateTotals items s) = jsum (map (\<lambda>i. orElse (item_pureWeight i) (Num 0)) items) \<and>
   grossWeight (calculateTotals items s)
     = jsum (map (\<lambda>i. orElse (item_grossWeight i) (Num 0)) items) \<and>
   purity (calculateTotals items s) = jsum (map (\<lambda>i. orElse (item_purity i) (Num 0)) items) \<and>
   premium (calculateTotals items s)
     = jsum (map (\<lambda>i. if gt0 (premiumDiscountAmount i) then premiumDiscountAmount i else Num 0)
         items) \<and>
   discount (calculateTotals items s)
     = jsum (map (\<lambda>i. if lt0 (premiumDiscountAmount i) then jabs (premiumDiscountAmount i)
                       else Num 0) items) \<and>
   goldValue (calculateTotals items s)
     = jsum (map (\<lambda>i. orElse (Option.bind (item_itemTotal i) baseAmount) (Num 0)) items) \<and>
   goldBidValue (calculateTotals items s)
     = firstTruthy
         (map (\<lambda>i. orElse (Option.bind (item_metalRateRequirements i) rate) (Num 0)) items) \<and>
   totalAmount (calculateTotals items s) = orElse (Option.bind s totalAmountAED) (Num 0)"
  by (simp add: calculateTotals_def Let_def jsum_def foldl_addItem_fields
      foldl_addItem_goldBidValue zeroSums_def)

lemma calculateTotals_vat_present:
  assumes "map (\<lambda>i. Option.bind (item_vat i) amount) items = map Some vs"
    and "map (\<lambda>i. Option.bind (item_otherCharges i) amount) items = map Some os"
  shows "vatAmount (calculateTotals items s) = jsum vs \<and>
         otherChargesAmount (calculateTotals items s) = jsum os"
  using assms
  by (simp add: calculateTotals_def Let_def jsum_def foldl_addItem_fields zeroSums_def
      foldl_jaddU_Some)


subsection \<open>Posting Builder\<close>

lemma legOK_Nil: "legOK P (runLegs [])"
  by (simp add: legOK_def)

lemma legOK_Cons: "legOK P l \<Longrightarrow> legOK P (runLegs ls) \<Longrightarrow> legOK P (runLegs (l # ls))"
  by (auto simp: legOK_def split: sum.splits)

lemma legOK_pushIf: "(c \<Longrightarrow> P x) \<Longrightarrow> legOK P (pushIf c x)"
  by (simp add: legOK_def pushIf_def)

lemma legOK_pushIfDescribed: "(\<And>d. c \<Longrightarrow> P (mk d)) \<Longrightarrow> legOK P (pushIfDescribed c item mk)"
  by (simp add: legOK_def pushIfDescribed_def split: option.splits)

lemma legOK_throwIf: "legOK P (throwIf c err)"
  by (simp add: legOK_def throwIf_def)

lemma legOK_Inr_Nil: "legOK P (Inr [])"
  by (simp add: legOK_def)

text \<open>A call of \<open>createRegistryEntry\<close> with a strictly positive value returns a posting
  that carries this value.\<close>

lemma createRegistryEntry_value:
  assumes "gt0 v" and "v \<in> set (legComponents ty t)"
  shows "positiveLeg t (createRegistryEntry b m s ty d p ib v c x r a)"
proof -
  from assms(1) obtain q where v: "v = Num q" and q: "0 < q"
    by (cases v) simp_all
  from q have "\<not> le0 v" by (simp add: v)
  with assms show ?thesis
    by (simp add: createRegistryEntry_def positiveLeg_def v)
qed

lemma buildPurchaseFixEntries_positive:
  "legOK (positiveLeg t) (buildPurchaseFixEntries t m party b vn a item)"
  unfolding buildPurchaseFixEntries_def Let_def
  apply (intro legOK_Cons legOK_Nil legOK_pushIf legOK_pushIfDescribed legOK_throwIf
      createRegistryEntry_value)
                      apply (simp_all add: legComponents_def)
  done

lemma buildPurchaseUnfixEntries_positive:
  "legOK (positiveLeg t) (buildPurchaseUnfixEntries t m party b vn a item)"
  unfolding buildPurchaseUnfixEntries_def Let_def
  apply (intro legOK_Cons legOK_Nil legOK_pushIf legOK_pushIfDescribed legOK_throwIf
      createRegistryEntry_value)
                      apply (simp_all add: legComponents_def)
  done

lemma buildPurchaseReturnFixEntries_positive:
  "legOK (positiveLeg t) (buildPurchaseReturnFixEntries t m party b vn a item)"
  unfolding buildPurchaseReturnFixEntries_def Let_def
  apply (intro legOK_Cons legOK_Nil legOK_pushIf legOK_pushIfDescribed legOK_throwIf
      createRegistryEntry_value)
                      apply (simp_all add: legComponents_def)
  done

lemma buildPurchaseReturnUnfixEntries_positive:
  "legOK (positiveLeg t) (buildPurchaseReturnUnfixEntries t m party b vn a item)"
  unfolding buildPurchaseReturnUnfixEntries_def Let_def
  apply (intro legOK_Cons legOK_Nil legOK_pushIf legOK_pushIfDescribed legOK_throwIf
      createRegistryEntry_value)
                      apply (simp_all add: legComponents_def)
  done

lemma buildSaleFixEntries_positive:
  "legOK (positiveLeg t) (buildSaleFixEntries t m party b vn a item)"
  unfolding buildSaleFixEntries_def Let_def
  apply (intro legOK_Cons legOK_Nil legOK_pushIf legOK_pushIfDescribed legOK_throwIf
      createRegistryEntry_value)
                      apply (simp_all add: legComponents_def)
  done

lemma buildSaleUnfixEntries_positive:
  "legOK (positiveLeg t) (buildSaleUnfixEntries t m party b vn a item)"
  unfolding buildSaleUnfixEntries_def Let_def
  apply (intro legOK_Cons legOK_Nil legOK_pushIf legOK_pushIfDescribed legOK_throwIf
      createRegistryEntry_value)
                      apply (simp_all add: legComponents_def)
  done

lemma buildSaleReturnUnfixEntries_positive:
  "legOK (positiveLeg t) (buildSaleReturnUnfixEntries t m party b vn a item)"
  unfolding buildSaleReturnUnfixEntries_def Let_def
  apply (intro legOK_Cons legOK_Nil legOK_pushIf legOK_pushIfDescribed legOK_throwIf
      createRegistryEntry_value)
                      apply (simp_all add: legComponents_def)
  done

lemma buildSaleReturnFixEntries_positive:
  "legOK (positiveLeg t) (buildSaleReturnFixEntries t m party b vn a item)"
  unfolding buildSaleReturnFixEntries_def Let_def
  apply (intro legOK_Cons legOK_Nil legOK_pushIf legOK_pushIfDescribed legOK_throwIf
      createRegistryEntry_value)
                      apply (simp_all add: legComponents_def)
  done

lemmas builders_positive =
  buildPurchaseFixEntries_positive buildPurchaseUnfixEntries_positive
  buildPurchaseReturnFixEntries_positive buildPurchaseReturnUnfixEntries_positive
  buildSaleFixEntries_positive buildSaleUnfixEntries_positive
  buildSaleReturnUnfixEntries_positive buildSaleReturnFixEntries_positive

lemma entriesOfItem_positive:
  "legOK (positiveLeg (calculateTotals [item] (totalAmountSession tx)))
     (entriesOfItem tx party adminId b mode item)"
  by (cases mode)
    (simp_all add: entriesOfItem_def Let_def buildPurchaseEntries_def buildSaleEntries_def
      buildPurchaseReturnEntries_def buildSaleReturnEntries_def builders_positive legOK_Inr_Nil)

lemma legOK_map:
  "(\<And>i. i \<in> set items \<Longrightarrow> legOK (Q i) (f i)) \<Longrightarrow>
   legOK (\<lambda>x. list_ex (\<lambda>i. Q i x) items) (runLegs (map f items))"
proof (induction items)
  case Nil
  then show ?case by (simp add: legOK_def)
next
  case (Cons i items)
  have a: "legOK (Q i) (f i)" using Cons.prems by simp
  have b: "legOK (\<lambda>x. list_ex (\<lambda>i. Q i x) items) (runLegs (map f items))"
    using Cons by simp
  from a b show ?case
    by (auto simp: legOK_def list_all_iff split: sum.splits)
qed

lemma filterBoolean_set: "e \<in> set (filterBoolean xs) \<longleftrightarrow> Some e \<in> set xs"
  by (induction xs rule: filterBoolean.induct) auto

lemma buildRegistryEntries_positive:
  assumes "buildRegistryEntries currentYear rnd tx party adminId = Inr entries"
  shows "list_all (positivePosting tx) entries"
proof -
  let ?b = "generateTransactionId currentYear rnd"
  let ?m = "getTransactionMode (fixed tx) (unfix tx)"
  let ?Q = "\<lambda>item. positiveLeg (calculateTotals [item] (totalAmountSession tx))"
  have all: "legOK (\<lambda>x. list_ex (\<lambda>i. ?Q i x) (stockItems tx))
      (runLegs (map (entriesOfItem tx party adminId ?b ?m) (stockItems tx)))"
    by (rule legOK_map) (rule entriesOfItem_positive)
  from assms obtain xs where
    xs: "runLegs (map (entriesOfItem tx party adminId ?b ?m) (stockItems tx)) = Inr xs"
    and entries: "entries = filterBoolean xs"
    by (auto simp: buildRegistryEntries_def Let_def split: sum.splits)
  have "positivePosting tx e" if "e \<in> set entries" for e
  proof -
    from that entries have "Some e \<in> set xs"
      by (simp add: filterBoolean_set)
    with all xs have "list_ex (\<lambda>i. ?Q i (Some e)) (stockItems tx)"
      by (simp add: legOK_def list_all_iff)
    then show ?thesis
      by (auto simp: positivePosting_def positiveLeg_def list_ex_iff)
  qed
  then show ?thesis
    by (simp add: list_all_iff)
qed

text \<open>
  C7. Whatever a builder pushes for given totals is \<open>null\<close> or a posting whose value is
  strictly positive and is the component of its leg, for each of the eight builders;
  and every posting in the list that \<open>buildRegistryEntries\<close> returns has a strictly
  positive value, the component of its leg in the totals of one of the stock items. So a
  component that is not strictly positive has no posting.
\<close>

theorem postings_only_for_positive_components:
  "legOK (positiveLeg t) (buildPurchaseFixEntries t m party b vn a item) \<and>
   legOK (positiveLeg t) (buildPurchaseUnfixEntries t m party b vn a item) \<and>
   legOK (positiveLeg t) (buildPurchaseReturnFixEntries t m party b vn a item) \<and>
   legOK (positiveLeg t) (buildPurchaseReturnUnfixEntries t m party b vn a item) \<and>
   legOK (positiveLeg t) (buildSaleFixEntries t m party b vn a item) \<and>
   legOK (positiveLeg t) (buildSaleUnfixEntries t m party b vn a item) \<and>
   legOK (positiveLeg t) (buildSaleReturnFixEntries t m party b vn a item) \<and>
   legOK (positiveLeg t) (buildSaleReturnUnfixEntries t m party b vn a item) \<and>
   (buildRegistryEntries currentYear rnd tx party adminId = Inr entries \<longrightarrow>
      list_all (positivePosting tx) entries)"
proof -
  have result: "buildRegistryEntries currentYear rnd tx party adminId = Inr entries \<longrightarrow>
      list_all (positivePosting tx) entries"
    by (rule impI) (rule buildRegistryEntries_positive)
  show ?thesis
    by (intro conjI builders_positive result)
qed

theorem postings_only_for_positive_components_witness:
  "buildRegistryEntries 2025 (1 / 2) tx0 party0 7 = Inr entries0 \<and>
   list_all (positivePosting tx0) entries0 \<and>
   map e_value entries0 = [Num 10, Num 5000, Num 10, Num 10]"
proof -
  have ev: "buildRegistryEntries 2025 (1 / 2) tx0 party0 7 = Inr entries0"
    by code_simp
  have vals: "map e_value entries0 = [Num 10, Num 5000, Num 10, Num 10]"
    by code_simp
  from postings_only_for_positive_components
    [of _ _ party0 _ _ _ _ 2025 "1 / 2" tx0 7 entries0] ev
  have "list_all (positivePosting tx0) entries0"
    by blast
  with ev vals show ?thesis
    by (intro conjI)
qed

text \<open>
  When the builders throw. A builder throws a TypeError only if the other-charges total
  is positive while the item has no \<open>otherCharges\<close>, which the totals of that very
  item exclude; \<open>buildPurchaseReturnUnfixEntries\<close> throws its ReferenceError exactly when
  the premium is positive. So \<open>buildRegistryEntries\<close> returns a list in every case but
  that of a purchase return in unfix mode with an item of positive premium.
\<close>


lemma runLegs_isl: "isl (runLegs ls) \<longleftrightarrow> list_ex isl ls"
  by (induction ls) (auto split: sum.splits)

lemma isl_pushIf: "\<not> isl (pushIf c x)"
  by (simp add: pushIf_def)

lemma isl_pushIfDescribed: "isl (pushIfDescribed c item mk) \<longleftrightarrow> c \<and> item_otherCharges item = None"
  by (simp add: pushIfDescribed_def split: option.splits)

lemma isl_throwIf: "isl (throwIf c err) \<longleftrightarrow> c"
  by (simp add: throwIf_def)

lemmas isl_legs = runLegs_isl isl_pushIf isl_pushIfDescribed isl_throwIf

lemma buildPurchaseFixEntries_throws:
  "isl (buildPurchaseFixEntries t m party b vn a item)
     \<longleftrightarrow> gt0 (otherChargesAmount t) \<and> item_otherCharges item = None"
  unfolding buildPurchaseFixEntries_def Let_def
  by (simp add: isl_legs del: runLegs.simps)

lemma buildPurchaseReturnFixEntries_throws:
  "isl (buildPurchaseReturnFixEntries t m party b vn a item)
     \<longleftrightarrow> gt0 (otherChargesAmount t) \<and> item_otherCharges item = None"
  unfolding buildPurchaseReturnFixEntries_def Let_def
  by (simp add: isl_legs del: runLegs.simps)

lemma buildSaleFixEntries_throws:
  "isl (buildSaleFixEntries t m party b vn a item)
     \<longleftrightarrow> gt0 (otherChargesAmount t) \<and> item_otherCharges item = None"
  unfolding buildSaleFixEntries_def Let_def
  by (simp add: isl_legs del: runLegs.simps)

lemma buildSaleReturnFixEntries_throws:
  "isl (buildSaleReturnFixEntries t m party b vn a item)
     \<longleftrightarrow> gt0 (otherChargesAmount t) \<and> item_otherCharges item = None"
  unfolding buildSaleReturnFixEntries_def Let_def
  by (simp add: isl_legs del: runLegs.simps)

lemma buildPurchaseUnfixEntries_throws:
  "isl (buildPurchaseUnfixEntries t m party b vn a item)
     \<longleftrightarrow> gt0 (otherChargesAmount t) \<and> item_otherCharges item = None"
  unfolding buildPurchaseUnfixEntries_def Let_def
  by (simp add: isl_legs del: runLegs.simps)

lemma buildPurchaseReturnUnfixEntries_throws:
  "isl (buildPurchaseReturnUnfixEntries t m party b vn a item)
     \<longleftrightarrow> gt0 (otherChargesAmount t) \<and> item_otherCharges item = None \<or> gt0 (premium t)"
  unfolding buildPurchaseReturnUnfixEntries_def Let_def
  by (simp add: isl_legs del: runLegs.simps)

lemma buildSaleUnfixEntries_throws:
  "isl (buildSaleUnfixEntries t m party b vn a item)
     \<longleftrightarrow> gt0 (otherChargesAmount t) \<and> item_otherCharges item = None"
  unfolding buildSaleUnfixEntries_def Let_def
  by (simp add: isl_legs del: runLegs.simps)

lemma buildSaleReturnUnfixEntries_throws:
  "isl (buildSaleReturnUnfixEntries t m party b vn a item)
     \<longleftrightarrow> gt0 (otherChargesAmount t) \<and> item_otherCharges item = None"
  unfolding buildSaleReturnUnfixEntries_def Let_def
  by (simp add: isl_legs del: runLegs.simps)


lemma single_item_otherCharges:
  "gt0 (otherChargesAmount (calculateTotals [item] s)) \<Longrightarrow> item_otherCharges item \<noteq> None"
  by (cases "item_otherCharges item")
    (simp_all add: calculateTotals_def addItem_def Let_def zeroSums_def)

lemma entriesOfItem_throws:
  "isl (entriesOfItem tx party adminId b mode item)
     \<longleftrightarrow> transactionType tx = ''purchaseReturn'' \<and> mode = Unfix \<and>
         gt0 (premium (calculateTotals [item] (totalAmountSession tx)))"
  using single_item_otherCharges [of item "totalAmountSession tx"]
  by (cases mode)
    (auto simp: entriesOfItem_def Let_def buildPurchaseEntries_def
      buildSaleEntries_def buildPurchaseReturnEntries_def buildSaleReturnEntries_def
      buildPurchaseFixEntries_throws buildPurchaseUnfixEntries_throws
      buildPurchaseReturnFixEntries_throws buildPurchaseReturnUnfixEntries_throws
      buildSaleFixEntries_throws buildSaleUnfixEntries_throws
      buildSaleReturnFixEntries_throws buildSaleReturnUnfixEntries_throws)

lemma buildRegistryEntries_throws:
  "isl (buildRegistryEntries currentYear rnd tx party adminId)
     \<longleftrightarrow> transactionType tx = ''purchaseReturn'' \<and>
         getTransactionMode (fixed tx) (unfix tx) = Unfix \<and>
         list_ex (\<lambda>item. gt0 (premium (calculateTotals [item] (totalAmountSession tx))))
           (stockItems tx)"
proof -
  let ?f = "entriesOfItem tx party adminId (generateTransactionId currentYear rnd)
      (getTransactionMode (fixed tx) (unfix tx))"
  have "isl (buildRegistryEntries currentYear rnd tx party adminId)
      \<longleftrightarrow> isl (runLegs (map ?f (stockItems tx)))"
    by (simp add: buildRegistryEntries_def Let_def split: sum.splits)
  also have "\<dots> \<longleftrightarrow> list_ex (\<lambda>item. isl (?f item)) (stockItems tx)"
    by (simp add: runLegs_isl list_ex_iff)
  finally show ?thesis
    by (auto simp: entriesOfItem_throws list_ex_iff)
qed

text \<open>
  The transactionIds that a builder gives its postings are, in order, some of the base
  followed by the suffixes of its mode.
\<close>

lemma filterBoolean_append: "filterBoolean (xs @ ys) = filterBoolean xs @ filterBoolean ys"
  by (induction xs rule: filterBoolean.induct) simp_all

lemma legIds_Nil: "legIds (runLegs []) []"
  by (simp add: legIds_def)

lemma legIds_Cons:
  assumes "legIds l [k]" and "legIds (runLegs ls) ks"
  shows "legIds (runLegs (l # ls)) (k # ks)"
proof (cases l)
  case (Inl err)
  then show ?thesis by (simp add: legIds_def)
next
  case l: (Inr xs)
  show ?thesis
  proof (cases "runLegs ls")
    case (Inl err)
    then show ?thesis by (simp add: legIds_def l)
  next
    case (Inr ys)
    from assms l Inr
    have "subseq (map e_transactionId (filterBoolean xs) @ map e_transactionId (filterBoolean ys))
            ([k] @ ks)"
      unfolding legIds_def by (intro list_emb_append_mono) simp_all
    then show ?thesis
      by (simp add: legIds_def l Inr filterBoolean_append)
  qed
qed

lemma createRegistryEntry_id:
  "createRegistryEntry b m sfx ty d p ib v c x r a = Some e \<Longrightarrow> e_transactionId e = b @ ''-'' @ sfx"
  by (auto simp: createRegistryEntry_def split: if_splits)

lemma legIds_entry:
  "subseq (map e_transactionId (filterBoolean [createRegistryEntry b m sfx ty d p ib v c x r a]))
     [b @ ''-'' @ sfx]"
  by (cases "createRegistryEntry b m sfx ty d p ib v c x r a")
    (simp_all add: createRegistryEntry_id)

lemma legIds_pushIf:
  "legIds (pushIf g (createRegistryEntry b m sfx ty d p ib v c x r a)) [b @ ''-'' @ sfx]"
  using legIds_entry [of b m sfx ty d p ib v c x r a]
  by (simp add: legIds_def pushIf_def)

lemma legIds_pushIfDescribed:
  "legIds (pushIfDescribed g item (\<lambda>d. createRegistryEntry b m sfx ty (f d) p ib v c x r a))
     [b @ ''-'' @ sfx]"
  using legIds_entry [of b m sfx ty _ p ib v c x r a]
  by (simp add: legIds_def pushIfDescribed_def split: option.splits)

lemma legIds_throwIf: "legIds (throwIf g err) [k]"
  by (simp add: legIds_def throwIf_def)

lemma buildPurchaseFixEntries_ids:
  "legIds (buildPurchaseFixEntries t m party b vn a item) (withBase b fixSuffixes)"
  unfolding buildPurchaseFixEntries_def Let_def withBase_def fixSuffixes_def list.map
  by (intro legIds_Cons legIds_Nil legIds_pushIf legIds_pushIfDescribed legIds_throwIf)

lemma buildPurchaseReturnFixEntries_ids:
  "legIds (buildPurchaseReturnFixEntries t m party b vn a item) (withBase b fixSuffixes)"
  unfolding buildPurchaseReturnFixEntries_def Let_def withBase_def fixSuffixes_def list.map
  by (intro legIds_Cons legIds_Nil legIds_pushIf legIds_pushIfDescribed legIds_throwIf)

lemma buildSaleFixEntries_ids:
  "legIds (buildSaleFixEntries t m party b vn a item) (withBase b fixSuffixes)"
  unfolding buildSaleFixEntries_def Let_def withBase_def fixSuffixes_def list.map
  by (intro legIds_Cons legIds_Nil legIds_pushIf legIds_pushIfDescribed legIds_throwIf)

lemma buildSaleReturnFixEntries_ids:
  "legIds (buildSaleReturnFixEntries t m party b vn a item) (withBase b fixSuffixes)"
  unfolding buildSaleReturnFixEntries_def Let_def withBase_def fixSuffixes_def list.map
  by (intro legIds_Cons legIds_Nil legIds_pushIf legIds_pushIfDescribed legIds_throwIf)

lemma buildPurchaseUnfixEntries_ids:
  "legIds (buildPurchaseUnfixEntries t m party b vn a item) (withBase b unfixSuffixes)"
  unfolding buildPurchaseUnfixEntries_def Let_def withBase_def unfixSuffixes_def list.map
  by (intro legIds_Cons legIds_Nil legIds_pushIf legIds_pushIfDescribed legIds_throwIf)

lemma buildPurchaseReturnUnfixEntries_ids:
  "legIds (buildPurchaseReturnUnfixEntries t m party b vn a item) (withBase b unfixSuffixes)"
  unfolding buildPurchaseReturnUnfixEntries_def Let_def withBase_def unfixSuffixes_def list.map
  by (intro legIds_Cons legIds_Nil legIds_pushIf legIds_pushIfDescribed legIds_throwIf)

lemma buildSaleUnfixEntries_ids:
  "legIds (buildSaleUnfixEntries t m party b vn a item) (withBase b unfixSuffixes)"
  unfolding buildSaleUnfixEntries_def Let_def withBase_def unfixSuffixes_def list.map
  by (intro legIds_Cons legIds_Nil legIds_pushIf legIds_pushIfDescribed legIds_throwIf)

lemma buildSaleReturnUnfixEntries_ids:
  "legIds (buildSaleReturnUnfixEntries t m party b vn a item) (withBase b unfixSuffixes)"
  unfolding buildSaleReturnUnfixEntries_def Let_def withBase_def unfixSuffixes_def list.map
  by (intro legIds_Cons legIds_Nil legIds_pushIf legIds_pushIfDescribed legIds_throwIf)


lemma legIds_Inr_Nil: "legIds (Inr []) ks"
  by (simp add: legIds_def)

lemma entriesOfItem_ids:
  "legIds (entriesOfItem tx party adminId b mode item) (withBase b (modeSuffixes mode))"
  by (cases mode)
    (simp_all add: entriesOfItem_def Let_def modeSuffixes_def buildPurchaseEntries_def
      buildSaleEntries_def buildPurchaseReturnEntries_def buildSaleReturnEntries_def
      buildPurchaseFixEntries_ids buildPurchaseUnfixEntries_ids
      buildPurchaseReturnFixEntries_ids buildPurchaseReturnUnfixEntries_ids
      buildSaleFixEntries_ids buildSaleUnfixEntries_ids
      buildSaleReturnFixEntries_ids buildSaleReturnUnfixEntries_ids legIds_Inr_Nil)

lemma distinct_withBase: "distinct sufs \<Longrightarrow> distinct (withBase b sufs)"
  by (simp add: withBase_def distinct_map inj_on_def)

lemma distinct_modeSuffixes: "distinct (modeSuffixes mode)"
  by (cases mode) (simp_all add: modeSuffixes_def fixSuffixes_def unfixSuffixes_def)

lemma subseq_distinct: "subseq xs ys \<Longrightarrow> distinct ys \<Longrightarrow> distinct xs"
  using subseqs_distinctD [of xs ys] by (simp add: set_subseqs_eq)

lemma randomNum_range:
  assumes "0 \<le> rnd" and "rnd < 1"
  shows "100 \<le> randomNum rnd \<and> randomNum rnd \<le> 999"
proof -
  from assms have "rnd * 900 < 900" by simp
  then have "\<lfloor>rnd * 900\<rfloor> < 900" by (simp add: floor_less_iff)
  then have "nat \<lfloor>rnd * 900\<rfloor> \<le> 899" by linarith
  then show ?thesis by (simp add: randomNum_def)
qed

text \<open>
  With a single stock item the transactionIds of the returned postings are, in order,
  some of the ids of the mode (the base followed by a suffix), hence pairwise distinct.
\<close>

lemma single_item_ids_distinct:
  assumes "stockItems tx = [item]"
    and "buildRegistryEntries currentYear rnd tx party adminId = Inr entries"
  shows "subseq (map e_transactionId entries)
           (withBase (generateTransactionId currentYear rnd)
              (modeSuffixes (getTransactionMode (fixed tx) (unfix tx)))) \<and>
         distinct (map e_transactionId entries)"
proof -
  let ?b = "generateTransactionId currentYear rnd"
  let ?m = "getTransactionMode (fixed tx) (unfix tx)"
  from assms obtain xs where xs: "entriesOfItem tx party adminId ?b ?m item = Inr xs"
    and entries: "entries = filterBoolean xs"
    by (auto simp: buildRegistryEntries_def Let_def split: sum.splits)
  from entriesOfItem_ids [of tx party adminId ?b ?m item] xs entries
  have sub: "subseq (map e_transactionId entries) (withBase ?b (modeSuffixes ?m))"
    by (simp add: legIds_def)
  moreover have "distinct (withBase ?b (modeSuffixes ?m))"
    by (rule distinct_withBase) (rule distinct_modeSuffixes)
  ultimately show ?thesis
    by (blast intro: subseq_distinct)
qed

text \<open>
  With any number of stock items, the transactionId of every returned posting is the
  base of the invocation followed by one of the suffixes of the mode.
\<close>

lemma legIds_member:
  assumes "legIds l ks"
  shows "legOK (\<lambda>x. case x of None \<Rightarrow> True | Some e \<Rightarrow> e_transactionId e \<in> set ks) l"
proof (cases l)
  case (Inl err)
  then show ?thesis by (simp add: legOK_def)
next
  case (Inr xs)
  with assms have sub: "subseq (map e_transactionId (filterBoolean xs)) ks"
    by (simp add: legIds_def)
  have "e_transactionId e \<in> set ks" if "Some e \<in> set xs" for e
  proof -
    from that have "e_transactionId e \<in> set (map e_transactionId (filterBoolean xs))"
      by (simp add: filterBoolean_set)
    with sub show ?thesis
      by (blast dest: list_emb_set)
  qed
  then show ?thesis
    by (auto simp: legOK_def Inr list_all_iff split: option.splits)
qed

lemma buildRegistryEntries_ids:
  assumes "buildRegistryEntries currentYear rnd tx party adminId = Inr entries"
    and "e \<in> set entries"
  shows "e_transactionId e \<in>
     set (withBase (generateTransactionId currentYear rnd)
            (modeSuffixes (getTransactionMode (fixed tx) (unfix tx))))"
proof -
  let ?b = "generateTransactionId currentYear rnd"
  let ?m = "getTransactionMode (fixed tx) (unfix tx)"
  let ?P = "\<lambda>x. case x of None \<Rightarrow> True
      | Some e \<Rightarrow> e_transactionId e \<in> set (withBase ?b (modeSuffixes ?m))"
  have "legOK (\<lambda>x. list_ex (\<lambda>i. ?P x) (stockItems tx))
      (runLegs (map (entriesOfItem tx party adminId ?b ?m) (stockItems tx)))"
    by (rule legOK_map) (rule legIds_member, rule entriesOfItem_ids)
  moreover from assms(1) obtain xs where
    "runLegs (map (entriesOfItem tx party adminId ?b ?m) (stockItems tx)) = Inr xs"
    and "entries = filterBoolean xs"
    by (auto simp: buildRegistryEntries_def Let_def split: sum.splits)
  moreover from this assms(2) have "Some e \<in> set xs"
    by (simp add: filterBoolean_set)
  ultimately have "list_ex (\<lambda>i. ?P (Some e)) (stockItems tx)"
    by (fastforce simp: legOK_def list_all_iff)
  then show ?thesis
    by (auto simp: list_ex_iff)
qed

text \<open>
  C9 (failing input). For a purchase in fix mode with two stock items the list returned
  by \<open>buildRegistryEntries\<close> holds each transactionId twice: the postings of the second
  item repeat the base and the suffixes of the first.
\<close>

theorem transactionIds_repeat_for_two_items:
  "map_sum id (map e_transactionId) (buildRegistryEntries 2025 (1 / 2) txTwoItems party0 7)
     = Inr [''TXN-2025-550-PARTY-GOLD'', ''TXN-2025-550-001'', ''TXN-2025-550-004'',
            ''TXN-2025-550-005'', ''TXN-2025-550-PARTY-GOLD'', ''TXN-2025-550-001'',
            ''TXN-2025-550-004'', ''TXN-2025-550-005''] \<and>
   \<not> distinct [''TXN-2025-550-PARTY-GOLD'', ''TXN-2025-550-001'', ''TXN-2025-550-004'',
            ''TXN-2025-550-005'', ''TXN-2025-550-PARTY-GOLD'', ''TXN-2025-550-001'',
            ''TXN-2025-550-004'', ''TXN-2025-550-005'']"
  by code_simp

subsection \<open>Transaction Lifecycle Coordinator\<close>

text \<open>
  C3 (failing input). Deleting \<open>tx0\<close> when its party is gone throws after the Registry
  postings of the transaction have been deleted without the session: the unit of work
  aborts, the transaction row stays, and the two postings are lost.
\<close>

theorem delete_abort_loses_postings:
  "registry dbOrphan = [posting 3, posting 4, posting 3] \<and>
   deleteMetalTransaction (ObjectId 3) 7 dbOrphan
     = (Inl TypeError, dbOrphan\<lparr>registry := [posting 4]\<rparr>) \<and>
   metalTransactions (snd (deleteMetalTransaction (ObjectId 3) 7 dbOrphan)) = [tx0]"
  by code_simp

text \<open>
  The successful delete: when the transaction is found and active and its party exists,
  the stored state afterwards has the postings of the transaction removed, the negated
  deltas of the transaction's own totals added to the party, and the row removed.
\<close>

lemma find_account_id: "find (\<lambda>a. account_id a = k) xs = Some party \<Longrightarrow> account_id party = k"
  by (induction xs) (auto split: if_splits)

lemma deleteMetalTransaction_success:
  assumes tx: "find (\<lambda>t. tx_id t = k) (metalTransactions db) = Some transaction"
    and active: "isActive transaction"
    and party: "find (\<lambda>a. account_id a = partyCode transaction) (accounts db) = Some party"
  shows "deleteMetalTransaction (ObjectId k) adminId db
     = (Inr ''Metal transaction deleted successfully'',
        deleteOneTransaction k
          (incBalances (partyCode transaction)
             (tradeDebtorsOps
                (calculateBalanceChanges (transactionType transaction)
                   (getTransactionMode (fixed transaction) (unfix transaction))
                   (calculateTotals (stockItems transaction) (totalAmountSession transaction)))
                True)
             (deleteManyRegistry (tx_id transaction) db)))"
  using tx active party find_account_id [OF party]
  by (simp add: deleteMetalTransaction_def startTransaction_def abortTransaction_def
      commitTransaction_def deleteRegistryEntry_def withoutSession_def inSession_def
      updateTradeDebtorsBalances_def deleteManyRegistry_def Let_def)

text \<open>
  C6 (failing input). Creating the purchase with making charges 0.125 adds 0.13 to the
  cash balance of the party; deleting it subtracts 0.125, the net cash delta as it is,
  and leaves 0.005 on a balance that was 0 before the creation.
\<close>

theorem delete_reversal_is_not_rounded:
  "netCashChange (calculateBalanceChanges ''purchase'' Unfix (calculateTotals [itemEighth] session0))
     = Num (1 / 8) \<and>
   map cashAmount (accounts dbNew) = [Num 0] \<and>
   map cashAmount (accounts dbCreated) = [Num (13 / 100)] \<and>
   fst (deleteMetalTransaction (ObjectId 3) 7 dbCreated)
     = Inr ''Metal transaction deleted successfully'' \<and>
   map cashAmount (accounts (snd (deleteMetalTransaction (ObjectId 3) 7 dbCreated)))
     = [Num (1 / 200)] \<and>
   inc_cashAmount (tradeDebtorsOps
       (calculateBalanceChanges ''purchase'' Unfix (calculateTotals [itemEighth] session0)) True)
     = Some (Num (- (1 / 8)))"
  by code_simp

lemma updateFirst_rel:
  "list_all2 (\<lambda>t t'. t' = t \<or> (p t \<and> t' = f t)) xs (updateFirst p f xs)"
  by (induction xs) (auto simp: list.rel_refl)

lemma find_updateFirst:
  assumes "\<And>x. p (f x) = p x"
  shows "find p (updateFirst p f xs) = map_option f (find p xs)"
  using assms by (induction xs) auto

text \<open>
  C8. Cancelling a fixing transaction leaves the accounts, the Registry and the metal
  transactions as they were, whatever the outcome; each fixing transaction is unchanged
  or is the one with the given id with \<open>status\<close> set to \<open>cancelled\<close> and \<open>updatedBy\<close> set
  to the caller; and when the transaction exists the call returns it so updated.
\<close>

theorem cancel_changes_status_only:
  "accounts (snd (cancelTransaction i adminId db)) = accounts db \<and>
   registry (snd (cancelTransaction i adminId db)) = registry db \<and>
   metalTransactions (snd (cancelTransaction i adminId db)) = metalTransactions db \<and>
   list_all2
     (\<lambda>t t'. t' = t \<or>
        (ObjectId (fx_id t) = i \<and> t' = t\<lparr>status := ''cancelled'', updatedBy := Some adminId\<rparr>))
     (transactionFixings db) (transactionFixings (snd (cancelTransaction i adminId db))) \<and>
   (\<forall>k t. i = ObjectId k \<and> find (\<lambda>t. fx_id t = k) (transactionFixings db) = Some t \<longrightarrow>
      fst (cancelTransaction i adminId db)
        = Inr (Some (t\<lparr>status := ''cancelled'', updatedBy := Some adminId\<rparr>)))"
proof -
  let ?c = "cancelTransaction i adminId db"
  let ?upd = "\<lambda>t. t\<lparr>status := ''cancelled'', updatedBy := Some adminId\<rparr>"
  have frame: "accounts (snd ?c) = accounts db \<and> registry (snd ?c) = registry db \<and>
      metalTransactions (snd ?c) = metalTransactions db"
    by (simp add: cancelTransaction_def Let_def split: rawId.splits option.splits)
  have fixings: "list_all2 (\<lambda>t t'. t' = t \<or> (ObjectId (fx_id t) = i \<and> t' = ?upd t))
     (transactionFixings db) (transactionFixings (snd ?c))"
  proof (cases i)
    case (ObjectId k)
    show ?thesis
    proof (cases "find (\<lambda>t. fx_id t = k) (transactionFixings db)")
      case None
      then show ?thesis
        by (simp add: cancelTransaction_def ObjectId list.rel_refl)
    next
      case (Some t)
      have "list_all2 (\<lambda>t t'. t' = t \<or> (fx_id t = k \<and> t' = ?upd t))
          (transactionFixings db)
          (updateFirst (\<lambda>t. fx_id t = k) ?upd (transactionFixings db))"
        by (rule updateFirst_rel)
      then show ?thesis
        by (simp add: cancelTransaction_def ObjectId Some Let_def)
    qed
  next
    case (Malformed s)
    then show ?thesis
      by (simp add: cancelTransaction_def list.rel_refl)
  qed
  have res: "\<forall>k t. i = ObjectId k \<and> find (\<lambda>t. fx_id t = k) (transactionFixings db) = Some t \<longrightarrow>
      fst ?c = Inr (Some (?upd t))"
    by (auto simp: cancelTransaction_def Let_def find_updateFirst)
  from frame fixings res show ?thesis by blast
qed

theorem cancel_changes_status_only_witness:
  "find (\<lambda>t. fx_id t = 5) (transactionFixings dbFixing) = Some fixing5 \<and>
   fst (cancelTransaction (ObjectId 5) 7 dbFixing)
     = Inr (Some (fixing5\<lparr>status := ''cancelled'', updatedBy := Some 7\<rparr>)) \<and>
   accounts (snd (cancelTransaction (ObjectId 5) 7 dbFixing)) = [party0] \<and>
   registry (snd (cancelTransaction (ObjectId 5) 7 dbFixing)) = [posting 3]"
proof -
  have found: "find (\<lambda>t. fx_id t = 5) (transactionFixings dbFixing) = Some fixing5"
    by code_simp
  have acc: "accounts dbFixing = [party0]" and reg: "registry dbFixing = [posting 3]"
    by (simp_all add: dbFixing_def)
  from cancel_changes_status_only [of "ObjectId 5" 7 dbFixing] found acc reg
  show ?thesis
    by simp
qed

end
